theory Spec2Isabelle
  imports Complex_Main "HOL-Library.Word"
begin

section \<open>Particle adaptation: reference spacing, refinement levels, split and merge\<close>

text \<open>
  The development embeds \<^verbatim>\<open>SPHINXsys/src/shared/adaptations/adaptation.cpp\<close>.
  The C++ type \<^verbatim>\<open>Real\<close> is \<^verbatim>\<open>double\<close>. A quantity that varies continuously (a spacing, a
  volume, a ratio) is read as the real number it stands for. Where rounding decides a
  discrete outcome it is written out with \<open>fl\<close>, the rounding to the nearest double: where
  the margin \<^verbatim>\<open>Eps\<close> is added to or taken from a much larger number, and where a result
  is truncated to an integer. Machine integers keep their width where a conversion can
  wrap (\<^verbatim>\<open>size_t\<close> is a 64-bit word).

  Three things the file uses are declared in headers of the repository that are not
  embedded here; they are parameters of the model:
  \<^item> \<open>D\<close>, the build constant \<^verbatim>\<open>Dimensions\<close> (2 or 3);
  \<^item> \<open>eps\<close>, the constant \<^verbatim>\<open>Eps\<close>;
  \<^item> \<open>K\<close>, the member functions of the kernel classes.

  A member \<^verbatim>\<open>name_\<close> of the source is the field \<open>name\<close> here; an argument or a
  local that shares the name of a member or of a library constant carries a prime.
\<close>

subsection \<open>Double precision\<close>

text \<open>
  IEEE 754 binary64 with rounding to nearest, ties to even: a number \<open>x\<close> with
  \<open>2^e \<le> |x| < 2^(e+1)\<close> is rounded to a multiple of \<open>2^(e-52)\<close>, and below \<open>2^-1022\<close> to a
  multiple of \<open>2^-1074\<close>. There is no infinity: a result of \<open>2^1024\<close> or more stands for an
  overflow.
\<close>

definition round_half_even :: "real \<Rightarrow> int" where
  "round_half_even y =
     (let f = \<lfloor>y\<rfloor>; r = y - of_int f
      in if r < 1 / 2 then f else if 1 / 2 < r then f + 1 else if even f then f else f + 1)"

definition double_exponent :: "real \<Rightarrow> int" where
  "double_exponent x = max \<lfloor>log 2 \<bar>x\<bar>\<rfloor> (- 1022)"

definition double_unit :: "real \<Rightarrow> real" where
  "double_unit x = 2 powr of_int (double_exponent x - 52)"

definition fl :: "real \<Rightarrow> real" where
  "fl x = of_int (round_half_even (x / double_unit x)) * double_unit x"

subsection \<open>Collaborators\<close>

datatype kernel_family = KernelWendlandC2 | Winfunc

record Kernel =
  family :: kernel_family
  smoothing_length :: real

text \<open>The virtual member functions of \<^verbatim>\<open>Kernel\<close> that the adaptation calls.\<close>

record kernel_ops =
  CutOffRadius :: "Kernel \<Rightarrow> real"
  KernelSize :: "Kernel \<Rightarrow> real"
  W :: "Kernel \<Rightarrow> real \<Rightarrow> real list \<Rightarrow> real"
  W_1D :: "Kernel \<Rightarrow> real \<Rightarrow> real"

record SPHSystem =
  resolution_ref :: real

record SPHBody =
  getSPHSystem :: SPHSystem
  getName :: string

text \<open>
  Modelled from the spec: \<^verbatim>\<open>powerN\<close> is declared in a header that is not embedded here.
  The spec reads \<^verbatim>\<open>powerN(2.0, L)\<close> as \<open>2^L\<close> and \<^verbatim>\<open>powerN(x, Dimensions)\<close> as \<open>x^D\<close>,
  the product of \<open>n\<close> copies of the base. For an exponent below one the model leaves the
  empty product; the properties below take the level \<open>L \<ge> 0\<close> wherever \<open>2^L\<close> matters.
\<close>

definition powerN :: "real \<Rightarrow> int \<Rightarrow> real" where
  "powerN a n = a ^ nat n"

text \<open>Conversion \<^verbatim>\<open>int(x)\<close> of a \<^verbatim>\<open>Real\<close>: the fractional part is dropped.\<close>

definition int_of_Real :: "real \<Rightarrow> int" where
  "int_of_Real x = (if 0 \<le> x then \<lfloor>x\<rfloor> else \<lceil>x\<rceil>)"

definition vec_norm :: "real list \<Rightarrow> real" where
  "vec_norm v = sqrt (sum_list (map (\<lambda>x. x * x) v))"

subsection \<open>The class hierarchy\<close>

record SPHAdaptation =
  h_spacing_ratio :: real
  system_refinement_ratio :: real
  local_refinement_level :: int
  spacing_ref :: real
  h_ref :: real
  kernel_ptr :: Kernel
  sigma0_ref :: real
  spacing_min :: real
  h_ratio_max :: real
  body_name :: string

record ParticleWithLocalRefinement = SPHAdaptation +
  finest_spacing_bound :: real
  coarsest_spacing_bound :: real

record ParticleSplitAndMerge = ParticleWithLocalRefinement +
  minimum_volume :: real
  maximum_volume :: real

text \<open>The class of the object a virtual call is dispatched on.\<close>

datatype adaptation_class =
  Class_SPHAdaptation | Class_ParticleWithLocalRefinement | Class_ParticleSplitAndMerge

subsection \<open>SPHAdaptation\<close>

definition SPHAdaptation_MostRefinedSpacing :: "real \<Rightarrow> int \<Rightarrow> real" where
  "SPHAdaptation_MostRefinedSpacing coarse_particle_spacing refinement_level =
     coarse_particle_spacing / powerN 2 refinement_level"

text \<open>
  \<^verbatim>\<open>ParticleSplitAndMerge::MostRefinedSpacing\<close>; \<^verbatim>\<open>pow\<close> of a positive base is \<open>powr\<close>.
\<close>

definition ParticleSplitAndMerge_MostRefinedSpacing :: "nat \<Rightarrow> real \<Rightarrow> int \<Rightarrow> real" where
  "ParticleSplitAndMerge_MostRefinedSpacing D coarse_particle_spacing local_refinement_level' =
     (let minimum_spacing_particles = powerN 2 local_refinement_level';
          spacing_ratio = minimum_spacing_particles powr (1 / real D)
      in coarse_particle_spacing / spacing_ratio)"

text \<open>
  Modelled from the spec: the declaration of \<^verbatim>\<open>MostRefinedSpacing\<close> is in the header,
  which is not embedded here. The spec has the split-and-merge manager recompute the
  finest spacing by its own rule whenever the adaptation resets, so the member function
  is virtual: a call is resolved by the class of the object, and only
  \<^verbatim>\<open>ParticleSplitAndMerge\<close> overrides it.
\<close>

fun MostRefinedSpacing :: "nat \<Rightarrow> adaptation_class \<Rightarrow> real \<Rightarrow> int \<Rightarrow> real" where
  "MostRefinedSpacing D Class_ParticleSplitAndMerge = ParticleSplitAndMerge_MostRefinedSpacing D"
| "MostRefinedSpacing D Class_ParticleWithLocalRefinement = SPHAdaptation_MostRefinedSpacing"
| "MostRefinedSpacing D Class_SPHAdaptation = SPHAdaptation_MostRefinedSpacing"

text \<open>
  \<^verbatim>\<open>computeReferenceNumberDensity\<close>, the two overloads. The members \<^verbatim>\<open>kernel_ptr_\<close> and
  \<^verbatim>\<open>ReferenceSpacing()\<close> are arguments, since the constructor calls it while the object
  is being built.
\<close>

definition computeReferenceNumberDensity_Vec2d :: "kernel_ops \<Rightarrow> Kernel \<Rightarrow> real \<Rightarrow> real" where
  "computeReferenceNumberDensity_Vec2d K kernel_ptr' particle_spacing =
     (let cutoff_radius = CutOffRadius K kernel_ptr';
          search_depth = int_of_Real (cutoff_radius / particle_spacing) + 1
      in fold (\<lambda>j. fold (\<lambda>i sigma.
               (let particle_location = [of_int i * particle_spacing, of_int j * particle_spacing];
                    distance = vec_norm particle_location
                in if distance < cutoff_radius
                   then sigma + W K kernel_ptr' distance particle_location else sigma))
             [- search_depth .. search_depth])
           [- search_depth .. search_depth] 0)"

definition computeReferenceNumberDensity_Vec3d :: "kernel_ops \<Rightarrow> Kernel \<Rightarrow> real \<Rightarrow> real" where
  "computeReferenceNumberDensity_Vec3d K kernel_ptr' particle_spacing =
     (let cutoff_radius = CutOffRadius K kernel_ptr';
          search_depth = int_of_Real (cutoff_radius / particle_spacing) + 1
      in fold (\<lambda>k. fold (\<lambda>j. fold (\<lambda>i sigma.
               (let particle_location = [of_int i * particle_spacing,
                      of_int j * particle_spacing, of_int k * particle_spacing];
                    distance = vec_norm particle_location
                in if distance < cutoff_radius
                   then sigma + W K kernel_ptr' distance particle_location else sigma))
             [- search_depth .. search_depth])
           [- search_depth .. search_depth])
         [- search_depth .. search_depth] 0)"

text \<open>\<^verbatim>\<open>computeReferenceNumberDensity(Vecd())\<close>: the overload is chosen by the build.\<close>

definition computeReferenceNumberDensity :: "kernel_ops \<Rightarrow> nat \<Rightarrow> Kernel \<Rightarrow> real \<Rightarrow> real" where
  "computeReferenceNumberDensity K D kernel_ptr' particle_spacing =
     (if D = 2 then computeReferenceNumberDensity_Vec2d K kernel_ptr' particle_spacing
      else computeReferenceNumberDensity_Vec3d K kernel_ptr' particle_spacing)"

text \<open>
  The constructor from a resolution. Inside a constructor of the base class a virtual
  call reaches the base class's own function.
\<close>

definition SPHAdaptation_ctor_resolution ::
  "kernel_ops \<Rightarrow> nat \<Rightarrow> real \<Rightarrow> real \<Rightarrow> real \<Rightarrow> SPHAdaptation" where
  "SPHAdaptation_ctor_resolution K D resolution_ref' h_spacing_ratio' system_refinement_ratio' =
     (let spacing_ref' = resolution_ref' / system_refinement_ratio';
          h_ref' = h_spacing_ratio' * spacing_ref';
          kernel_ptr' = \<lparr>family = KernelWendlandC2, smoothing_length = h_ref'\<rparr>
      in \<lparr>h_spacing_ratio = h_spacing_ratio',
          system_refinement_ratio = system_refinement_ratio',
          local_refinement_level = 0,
          spacing_ref = spacing_ref',
          h_ref = h_ref',
          kernel_ptr = kernel_ptr',
          sigma0_ref = computeReferenceNumberDensity K D kernel_ptr' spacing_ref',
          spacing_min = MostRefinedSpacing D Class_SPHAdaptation spacing_ref' 0,
          h_ratio_max = powerN 2 0,
          body_name = []\<rparr>)"

definition SPHAdaptation_ctor ::
  "kernel_ops \<Rightarrow> nat \<Rightarrow> SPHBody \<Rightarrow> real \<Rightarrow> real \<Rightarrow> SPHAdaptation" where
  "SPHAdaptation_ctor K D sph_body h_spacing_ratio' system_refinement_ratio' =
     (let this = SPHAdaptation_ctor_resolution K D (resolution_ref (getSPHSystem sph_body))
                   h_spacing_ratio' system_refinement_ratio';
          this = this\<lparr>body_name := getName sph_body\<rparr>;
          first_six = take 6 (body_name this)
      in if first_six = ''PDBody''
         then this\<lparr>kernel_ptr := \<lparr>family = Winfunc, smoothing_length = h_ref this\<rparr>\<rparr>
         else this)"

text \<open>
  \<^verbatim>\<open>SPHAdaptation::resetAdaptationRatios\<close>, statement by statement. \<open>cls\<close> is the class of
  the object, which resolves the call of \<^verbatim>\<open>MostRefinedSpacing\<close>.
\<close>

definition SPHAdaptation_resetAdaptationRatios ::
  "kernel_ops \<Rightarrow> nat \<Rightarrow> adaptation_class \<Rightarrow> 'a SPHAdaptation_scheme \<Rightarrow> real \<Rightarrow> real
     \<Rightarrow> 'a SPHAdaptation_scheme" where
  "SPHAdaptation_resetAdaptationRatios K D cls this h_spacing_ratio' new_system_refinement_ratio =
     (let this = this\<lparr>h_spacing_ratio := h_spacing_ratio'\<rparr>;
          this = this\<lparr>spacing_ref :=
                   spacing_ref this * system_refinement_ratio this / new_system_refinement_ratio\<rparr>;
          this = this\<lparr>system_refinement_ratio := new_system_refinement_ratio\<rparr>;
          this = this\<lparr>h_ref := h_spacing_ratio this * spacing_ref this\<rparr>;
          this = this\<lparr>kernel_ptr := \<lparr>family = KernelWendlandC2, smoothing_length = h_ref this\<rparr>\<rparr>;
          this = this\<lparr>sigma0_ref :=
                   computeReferenceNumberDensity K D (kernel_ptr this) (spacing_ref this)\<rparr>;
          this = this\<lparr>spacing_min :=
                   MostRefinedSpacing D cls (spacing_ref this) (local_refinement_level this)\<rparr>
      in this\<lparr>h_ratio_max := h_ref this * spacing_ref this / spacing_min this\<rparr>)"

text \<open>
  \<^verbatim>\<open>SPHAdaptation::createLevelSet\<close>, up to its call of the constructor of
  \<^verbatim>\<open>MultilevelLevelSet\<close>: the model returns the arguments of that call (the class itself is
  not embedded here). The function holds no \<^verbatim>\<open>throw\<close>, no assertion and no early return,
  so no branch of the model is an error; the result type has a place for one so that its
  absence can be stated. \<open>minimum_dimension\<close> is the value of
  \<^verbatim>\<open>MinimumDimension(shape.getBounds())\<close>.

  The estimate of the levels truncates a logarithm, so the quotient and the logarithm
  are rounded (\<^verbatim>\<open>log10\<close> of the C library is taken as correctly rounded). The result is
  \<open>None\<close> where the C++ has no defined value: a quotient that is not positive and finite
  has the logarithm minus infinity, infinity or not-a-number, and the conversion of
  such a value, or of one beyond the range of \<^verbatim>\<open>int\<close>, is undefined.
\<close>

datatype error = ConfigurationError

record MultilevelLevelSet_args =
  total_levels :: "64 word"
  coarsest_spacing :: real
  reference_data_spacing :: real
  coarser_total_levels :: "64 word"

definition estimated_levels :: "real \<Rightarrow> real \<Rightarrow> int option" where
  \<comment> \<open>\<^verbatim>\<open>(int)log10(MinimumDimension(...) / ReferenceSpacing()) + 2\<close>, before the conversion to \<^verbatim>\<open>size_t\<close>\<close>
  "estimated_levels minimum_dimension reference_spacing =
     (let quotient = fl (minimum_dimension / reference_spacing)
      in if reference_spacing = 0 \<or> quotient \<le> 0 \<or> 2 powr 1024 \<le> quotient then None
         else (let n = int_of_Real (fl (log 10 quotient))
               in if - (2 ^ 31) \<le> n \<and> n + 2 < 2 ^ 31 then Some (n + 2) else None))"

definition createLevelSet ::
  "'a SPHAdaptation_scheme \<Rightarrow> real \<Rightarrow> real \<Rightarrow> (error + MultilevelLevelSet_args) option" where
  "createLevelSet this minimum_dimension refinement_ratio =
     (case estimated_levels minimum_dimension (spacing_ref this) of
        None \<Rightarrow> None
      | Some n \<Rightarrow>
          (let total_levels' = (word_of_int n :: 64 word);
               coarsest_spacing' =
                 spacing_ref this * powerN 2 (sint (ucast (total_levels' - 1) :: 32 word))
           in Some (Inr \<lparr>total_levels = total_levels',
                          coarsest_spacing = coarsest_spacing',
                          reference_data_spacing = coarsest_spacing' / refinement_ratio,
                          coarser_total_levels = total_levels' - 1\<rparr>)))"

subsection \<open>ParticleWithLocalRefinement\<close>

text \<open>
  The constructor: the base class is built first, then the body runs. The body's call of
  \<^verbatim>\<open>MostRefinedSpacing\<close> is resolved for the class under construction. The two bounds add
  and subtract \<^verbatim>\<open>Eps\<close>; the sums are rounded.
\<close>

definition ParticleWithLocalRefinement_ctor ::
  "kernel_ops \<Rightarrow> nat \<Rightarrow> real \<Rightarrow> SPHBody \<Rightarrow> real \<Rightarrow> real \<Rightarrow> int
     \<Rightarrow> ParticleWithLocalRefinement" where
  "ParticleWithLocalRefinement_ctor K D eps sph_body h_spacing_ratio' system_refinement_ratio'
       local_refinement_level' =
     (let this = SPHAdaptation_ctor K D sph_body h_spacing_ratio' system_refinement_ratio';
          this = this\<lparr>local_refinement_level := local_refinement_level'\<rparr>;
          this = this\<lparr>spacing_min := MostRefinedSpacing D Class_ParticleWithLocalRefinement
                   (spacing_ref this) (local_refinement_level this)\<rparr>;
          this = this\<lparr>h_ratio_max := powerN 2 (local_refinement_level this)\<rparr>
      in SPHAdaptation.extend this
           (ParticleWithLocalRefinement.fields
              (fl (spacing_min this + eps)) (fl (spacing_ref this - eps))))"



subsection \<open>ParticleRefinementByShape and its two policies\<close>

definition smoothedSpacing ::
  "kernel_ops \<Rightarrow> 'a ParticleWithLocalRefinement_scheme \<Rightarrow> real \<Rightarrow> real \<Rightarrow> real" where
  "smoothedSpacing K this measure' transition_thickness =
     (let ratio_ref = measure' / (2 * transition_thickness);
          target_spacing = coarsest_spacing_bound this
      in if ratio_ref < KernelSize K (kernel_ptr this)
         then (let weight = W_1D K (kernel_ptr this) ratio_ref / W_1D K (kernel_ptr this) 0
               in weight * finest_spacing_bound this
                  + (1 - weight) * coarsest_spacing_bound this)
         else target_spacing)"

text \<open>
  \<^verbatim>\<open>smoothedSpacing\<close> above is a member of \<^verbatim>\<open>ParticleRefinementByShape\<close>, which adds no
  field to \<^verbatim>\<open>ParticleWithLocalRefinement\<close>. Below, \<open>signed_distance\<close> is the value of
  \<^verbatim>\<open>shape.findSignedDistance(position)\<close>.
\<close>

definition ParticleRefinementNearSurface_getLocalSpacing ::
  "kernel_ops \<Rightarrow> 'a ParticleWithLocalRefinement_scheme \<Rightarrow> real \<Rightarrow> real" where
  "ParticleRefinementNearSurface_getLocalSpacing K this signed_distance =
     (let phi = \<bar>signed_distance\<bar> in smoothedSpacing K this phi (spacing_ref this))"

definition ParticleRefinementWithinShape_getLocalSpacing ::
  "kernel_ops \<Rightarrow> 'a ParticleWithLocalRefinement_scheme \<Rightarrow> real \<Rightarrow> real" where
  "ParticleRefinementWithinShape_getLocalSpacing K this signed_distance =
     (let phi = signed_distance
      in if phi < 0 then finest_spacing_bound this
         else smoothedSpacing K this phi (2 * spacing_ref this))"

subsection \<open>ParticleSplitAndMerge\<close>

definition ParticleSplitAndMerge_ctor ::
  "kernel_ops \<Rightarrow> nat \<Rightarrow> real \<Rightarrow> SPHBody \<Rightarrow> real \<Rightarrow> real \<Rightarrow> int \<Rightarrow> ParticleSplitAndMerge" where
  "ParticleSplitAndMerge_ctor K D eps sph_body h_spacing_ratio' system_resolution_ratio
       local_refinement_level' =
     (let this = ParticleWithLocalRefinement_ctor K D eps sph_body h_spacing_ratio'
                   system_resolution_ratio local_refinement_level';
          this = this\<lparr>spacing_min := MostRefinedSpacing D Class_ParticleSplitAndMerge
                   (spacing_ref this) (local_refinement_level this)\<rparr>;
          this = this\<lparr>h_ratio_max := spacing_ref this / spacing_min this\<rparr>
      in ParticleWithLocalRefinement.extend this
           (ParticleSplitAndMerge.fields
              (powerN (spacing_min this) (int D)) (powerN (spacing_ref this) (int D))))"

definition isSplitAllowed :: "real \<Rightarrow> 'a ParticleSplitAndMerge_scheme \<Rightarrow> real \<Rightarrow> bool" where
  "isSplitAllowed eps this current_volume =
     (if current_volume - 2 * minimum_volume this > - eps then True else False)"

definition mergeResolutionCheck ::
  "nat \<Rightarrow> real \<Rightarrow> 'a ParticleSplitAndMerge_scheme \<Rightarrow> real \<Rightarrow> bool" where
  "mergeResolutionCheck D eps this volume =
     (if volume - 1.2 * powerN (spacing_min this) (int D) < eps then True else False)"

definition ParticleSplitAndMerge_resetAdaptationRatios ::
  "kernel_ops \<Rightarrow> nat \<Rightarrow> 'a ParticleSplitAndMerge_scheme \<Rightarrow> real \<Rightarrow> real
     \<Rightarrow> 'a ParticleSplitAndMerge_scheme" where
  "ParticleSplitAndMerge_resetAdaptationRatios K D this h_spacing_ratio'
       new_system_refinement_ratio =
     (let this = SPHAdaptation_resetAdaptationRatios K D Class_ParticleSplitAndMerge this
                   h_spacing_ratio' new_system_refinement_ratio;
          this = this\<lparr>minimum_volume := powerN (spacing_min this) (int D)\<rparr>
      in this\<lparr>maximum_volume := powerN (spacing_ref this) (int D)\<rparr>)"


text \<open>
  The volume \<open>2 * minimum_volume - 10 * Eps\<close> as a caller computes it, in doubles.
\<close>

definition twice_minimum_volume_less_10_Eps ::
  "real \<Rightarrow> 'a ParticleSplitAndMerge_scheme \<Rightarrow> real" where
  "twice_minimum_volume_less_10_Eps eps this = fl (fl (2 * minimum_volume this) - fl (10 * eps))"

subsection \<open>Sequences of resets\<close>


fun ParticleSplitAndMerge_resets ::
  "kernel_ops \<Rightarrow> nat \<Rightarrow> 'a ParticleSplitAndMerge_scheme \<Rightarrow> (real \<times> real) list
     \<Rightarrow> 'a ParticleSplitAndMerge_scheme" where
  "ParticleSplitAndMerge_resets K D this [] = this"
| "ParticleSplitAndMerge_resets K D this ((h, r) # calls) =
     ParticleSplitAndMerge_resets K D
       (ParticleSplitAndMerge_resetAdaptationRatios K D this h r) calls"

subsection \<open>Sample values for closed examples\<close>

text \<open>
  The kernel classes and the constant \<^verbatim>\<open>Eps\<close> are not embedded here. Every theorem
  below holds for all of them; a closed example has to pick some. The sample
  kernel has the profile of the fifth-order Wendland function with support size 2, and
  the sample margin is the spacing of double-precision numbers at 1.
\<close>

definition sample_kernels :: kernel_ops where
  "sample_kernels =
     \<lparr>CutOffRadius = (\<lambda>k. 2 * smoothing_length k),
      KernelSize = (\<lambda>k. 2),
      W = (\<lambda>k r v. (1 - r / (2 * smoothing_length k)) ^ 4 * (1 + 2 * r / smoothing_length k)),
      W_1D = (\<lambda>k q. (1 - q / 2) ^ 4 * (1 + 2 * q))\<rparr>"

definition sample_Eps :: real where
  "sample_Eps = 1 / 2 ^ 52"

definition sample_body :: SPHBody where
  "sample_body = \<lparr>getSPHSystem = \<lparr>resolution_ref = 1 / 10\<rparr>, getName = ''WaterBody''\<rparr>"

definition sample_split_merge :: ParticleSplitAndMerge where
  "sample_split_merge =
     ParticleSplitAndMerge_resets sample_kernels 2
       (ParticleSplitAndMerge_ctor sample_kernels 2 sample_Eps sample_body (13/10) 1 2)
       [(13/10, 2)]"

definition fine_body :: SPHBody where
  "fine_body = \<lparr>getSPHSystem = \<lparr>resolution_ref = 1 / 10 ^ 8\<rparr>, getName = ''WaterBody''\<rparr>"

definition sample_adaptation :: SPHAdaptation where
  "sample_adaptation = SPHAdaptation_ctor sample_kernels 2 sample_body (13/10) 1"

definition sample_refinement :: ParticleWithLocalRefinement where
  "sample_refinement =
     ParticleWithLocalRefinement_ctor sample_kernels 2 sample_Eps sample_body (13/10) 1 2"

text \<open>
  Bodies whose resolution is a double: \<open>1/8\<close> for the objects where the margin survives
  the rounding, 5 for those where it is absorbed.
\<close>

definition dyadic_body :: SPHBody where
  "dyadic_body = \<lparr>getSPHSystem = \<lparr>resolution_ref = 1 / 8\<rparr>, getName = ''WaterBody''\<rparr>"

definition coarse_body :: SPHBody where
  "coarse_body = \<lparr>getSPHSystem = \<lparr>resolution_ref = 5\<rparr>, getName = ''WaterBody''\<rparr>"

definition dyadic_adaptation :: SPHAdaptation where
  "dyadic_adaptation = SPHAdaptation_ctor sample_kernels 2 dyadic_body (13/10) 1"

definition dyadic_refinement :: ParticleWithLocalRefinement where
  "dyadic_refinement =
     ParticleWithLocalRefinement_ctor sample_kernels 2 sample_Eps dyadic_body (13/10) 1 2"



definition dyadic_split_merge :: ParticleSplitAndMerge where
  "dyadic_split_merge =
     ParticleSplitAndMerge_resets sample_kernels 2
       (ParticleSplitAndMerge_ctor sample_kernels 2 sample_Eps dyadic_body (13/10) 1 2)
       [(13/10, 2)]"

definition coarse_split_merge :: ParticleSplitAndMerge where
  "coarse_split_merge =
     ParticleSplitAndMerge_ctor sample_kernels 2 sample_Eps coarse_body (13/10) 1 0"




subsection \<open>Consistency of a split-and-merge object\<close>

text \<open>What every object of the class satisfies once it is built, whatever was reset since.\<close>

definition PSM_consistent :: "nat \<Rightarrow> int \<Rightarrow> 'a ParticleSplitAndMerge_scheme \<Rightarrow> bool" where
  "PSM_consistent D L st =
     (local_refinement_level st = L
      \<and> spacing_min st = ParticleSplitAndMerge_MostRefinedSpacing D (spacing_ref st) L
      \<and> minimum_volume st = powerN (spacing_min st) (int D)
      \<and> maximum_volume st = powerN (spacing_ref st) (int D))"

section \<open>Properties\<close>

subsection \<open>Rounding to double\<close>

lemma rhe_floor: "\<lfloor>y\<rfloor> \<le> round_half_even y \<and> round_half_even y \<le> \<lfloor>y\<rfloor> + 1"
  by (simp add: round_half_even_def Let_def)

lemma rhe_error: "\<bar>of_int (round_half_even y) - y\<bar> \<le> 1 / 2"
proof -
  have "of_int \<lfloor>y\<rfloor> \<le> y" "y < of_int \<lfloor>y\<rfloor> + 1" by linarith+
  then show ?thesis by (auto simp add: round_half_even_def Let_def)
qed

lemma rhe_near:
  assumes "\<bar>r\<bar> < 1 / 2"
  shows "round_half_even (of_int k + r) = k"
proof (cases "0 \<le> r")
  case True
  then have "\<lfloor>of_int k + r\<rfloor> = k" using assms by (simp add: floor_eq_iff)
  then show ?thesis using assms True by (simp add: round_half_even_def Let_def)
next
  case False
  then have "\<lfloor>of_int k + r\<rfloor> = k - 1" using assms by (simp add: floor_eq_iff)
  then show ?thesis using assms False by (simp add: round_half_even_def Let_def)
qed

lemma rhe_of_int: "round_half_even (of_int k) = k"
  using rhe_near [of 0 k] by simp

lemma rhe_mono:
  assumes "a \<le> b"
  shows "round_half_even a \<le> round_half_even b"
proof (cases "\<lfloor>a\<rfloor> < \<lfloor>b\<rfloor>")
  case True
  have "round_half_even a \<le> \<lfloor>a\<rfloor> + 1" using rhe_floor by blast
  also have "\<dots> \<le> \<lfloor>b\<rfloor>" using True by simp
  also have "\<dots> \<le> round_half_even b" using rhe_floor by blast
  finally show ?thesis .
next
  case False
  moreover have "\<lfloor>a\<rfloor> \<le> \<lfloor>b\<rfloor>" using assms by (rule floor_mono)
  ultimately have "\<lfloor>a\<rfloor> = \<lfloor>b\<rfloor>" by simp
  then show ?thesis using assms by (auto simp add: round_half_even_def Let_def)
qed

lemma exponent_bounds:
  assumes "x \<noteq> 0"
  shows "2 powr of_int \<lfloor>log 2 \<bar>x\<bar>\<rfloor> \<le> \<bar>x\<bar>" and "\<bar>x\<bar> < 2 powr of_int (\<lfloor>log 2 \<bar>x\<bar>\<rfloor> + 1)"
proof -
  have p: "0 < \<bar>x\<bar>" using assms by simp
  show "2 powr of_int \<lfloor>log 2 \<bar>x\<bar>\<rfloor> \<le> \<bar>x\<bar>"
    using p by (subst le_log_iff [symmetric]) simp_all
  have "log 2 \<bar>x\<bar> < of_int (\<lfloor>log 2 \<bar>x\<bar>\<rfloor> + 1)" by linarith
  then show "\<bar>x\<bar> < 2 powr of_int (\<lfloor>log 2 \<bar>x\<bar>\<rfloor> + 1)"
    using p by (subst log_less_iff [symmetric]) simp_all
qed

lemma exponent_eq:
  assumes "2 powr of_int m \<le> \<bar>x\<bar>" and "\<bar>x\<bar> < 2 powr of_int (m + 1)"
  shows "\<lfloor>log 2 \<bar>x\<bar>\<rfloor> = m"
proof -
  have p: "0 < \<bar>x\<bar>" using assms(1) by (smt (verit) powr_gt_zero)
  have "of_int m \<le> log 2 \<bar>x\<bar>" using assms(1) p by (simp add: le_log_iff)
  moreover have "log 2 \<bar>x\<bar> < of_int m + 1" using assms(2) p by (simp add: log_less_iff)
  ultimately show ?thesis by (simp add: floor_eq_iff)
qed

lemma rhe_minus: "round_half_even (- y) = - round_half_even y"
proof (cases "y = of_int \<lfloor>y\<rfloor>")
  case True
  then have "- y = of_int (- \<lfloor>y\<rfloor>)" by simp
  then have "round_half_even (- y) = - \<lfloor>y\<rfloor>" by (simp only: rhe_of_int)
  moreover have "round_half_even y = \<lfloor>y\<rfloor>" using True rhe_of_int [of "\<lfloor>y\<rfloor>"] by simp
  ultimately show ?thesis by simp
next
  case False
  have lo: "of_int \<lfloor>y\<rfloor> < y" using False of_int_floor_le [of y] by linarith
  have hi: "y < of_int \<lfloor>y\<rfloor> + 1" by linarith
  have f: "\<lfloor>- y\<rfloor> = - \<lfloor>y\<rfloor> - 1"
  proof (rule floor_unique)
    have "- real_of_int \<lfloor>y\<rfloor> - 1 \<le> - y" using hi by linarith
    then show "of_int (- \<lfloor>y\<rfloor> - 1) \<le> - y" by simp
    have "- y < - real_of_int \<lfloor>y\<rfloor>" using lo by linarith
    then show "- y < of_int (- \<lfloor>y\<rfloor> - 1) + 1" by simp
  qed
  show ?thesis
    unfolding round_half_even_def Let_def f using lo hi by auto
qed

lemma double_unit_pos: "0 < double_unit x"
  by (simp add: double_unit_def)

lemma double_unit_minus: "double_unit (- x) = double_unit x"
  by (simp add: double_unit_def double_exponent_def)

lemma fl_zero: "fl 0 = 0"
  by (simp add: fl_def rhe_of_int [of 0, simplified])

lemma fl_minus: "fl (- x) = - fl x"
  by (simp add: fl_def double_unit_minus rhe_minus)

lemma fl_near:
  assumes x: "x = (of_int k + r) * 2 powr of_int j"
    and lo: "2 ^ 52 \<le> \<bar>of_int k + r\<bar>" and hi: "\<bar>of_int k + r\<bar> < 2 ^ 53"
    and r: "\<bar>r\<bar> < 1 / 2" and j: "- 1074 \<le> j"
  shows "fl x = of_int k * 2 powr of_int j"
proof -
  have ax: "\<bar>x\<bar> = \<bar>of_int k + r\<bar> * 2 powr of_int j"
    unfolding x by (simp add: abs_mult)
  have p1: "(2::real) powr of_int (j + 52) = 2 ^ 52 * 2 powr of_int j"
    by (simp add: powr_add)
  have p2: "(2::real) powr of_int (j + 52 + 1) = 2 ^ 53 * 2 powr of_int j"
    by (simp add: powr_add)
  have "2 powr of_int (j + 52) \<le> \<bar>x\<bar>"
    unfolding ax p1 using lo by (simp add: mult_right_mono)
  moreover have "\<bar>x\<bar> < 2 powr of_int (j + 52 + 1)"
    unfolding ax p2 using hi by (simp add: mult_strict_right_mono)
  ultimately have "\<lfloor>log 2 \<bar>x\<bar>\<rfloor> = j + 52" by (rule exponent_eq)
  then have "double_exponent x = j + 52" using j by (simp add: double_exponent_def)
  then have u: "double_unit x = 2 powr of_int j" by (simp add: double_unit_def)
  have "x / double_unit x = x / 2 powr of_int j" by (simp only: u)
  also have "\<dots> = of_int k + r" by (simp add: x)
  finally have "x / double_unit x = of_int k + r" .
  then have "round_half_even (x / double_unit x) = k" using r by (simp add: rhe_near)
  then show ?thesis by (simp add: fl_def u)
qed

lemma fl_representable:
  assumes "2 ^ 52 \<le> \<bar>k\<bar>" and "\<bar>k\<bar> < 2 ^ 53" and "- 1074 \<le> j"
  shows "fl (of_int k * 2 powr of_int j) = of_int k * 2 powr of_int j"
proof -
  have "(2::real) ^ 52 \<le> \<bar>of_int k + 0\<bar>" using assms(1) by (simp flip: of_int_abs)
  moreover have "\<bar>of_int k + 0\<bar> < (2::real) ^ 53" using assms(2) by (simp flip: of_int_abs)
  ultimately show ?thesis
    using fl_near [of "of_int k * 2 powr of_int j" k 0 j] assms(3) by simp
qed

lemma fl_error: "\<bar>fl x - x\<bar> \<le> double_unit x / 2"
proof -
  have "fl x - x = (of_int (round_half_even (x / double_unit x)) - x / double_unit x) * double_unit x"
    using double_unit_pos [of x] by (simp add: fl_def algebra_simps)
  then have "\<bar>fl x - x\<bar> = \<bar>of_int (round_half_even (x / double_unit x)) - x / double_unit x\<bar> * double_unit x"
    using double_unit_pos [of x] by (simp add: abs_mult)
  also have "\<dots> \<le> 1 / 2 * double_unit x"
    using rhe_error [of "x / double_unit x"] double_unit_pos [of x]
    by (intro mult_right_mono) simp_all
  finally show ?thesis by simp
qed

lemma fl_nonneg:
  assumes "0 \<le> x"
  shows "0 \<le> fl x"
proof -
  have "0 \<le> x / double_unit x" using assms double_unit_pos [of x] by simp
  then have "round_half_even 0 \<le> round_half_even (x / double_unit x)" by (rule rhe_mono)
  then have "0 \<le> round_half_even (x / double_unit x)"
    using rhe_of_int [of 0] by simp
  then show ?thesis using double_unit_pos [of x] by (simp add: fl_def)
qed

lemma double_exponent_mono:
  assumes "0 < x" and "x \<le> y"
  shows "double_exponent x \<le> double_exponent y"
proof -
  have "log 2 \<bar>x\<bar> \<le> log 2 \<bar>y\<bar>" using assms by simp
  then have "\<lfloor>log 2 \<bar>x\<bar>\<rfloor> \<le> \<lfloor>log 2 \<bar>y\<bar>\<rfloor>" by (rule floor_mono)
  then show ?thesis by (simp add: double_exponent_def)
qed

lemma powr_unit_ratio:
  "(2::real) powr (a + 1) / 2 powr (a - 52) = 2 ^ 53"
  "(2::real) powr a / 2 powr (a - 52) = 2 ^ 52"
proof -
  have "(2::real) powr (a + 1) / 2 powr (a - 52) = 2 powr ((a + 1) - (a - 52))"
    by (simp only: powr_diff)
  also have "\<dots> = 2 powr 53" by simp
  finally show "(2::real) powr (a + 1) / 2 powr (a - 52) = 2 ^ 53" by simp
  have "(2::real) powr a / 2 powr (a - 52) = 2 powr (a - (a - 52))"
    by (simp only: powr_diff)
  also have "\<dots> = 2 powr 52" by simp
  finally show "(2::real) powr a / 2 powr (a - 52) = 2 ^ 52" by simp
qed

lemma fl_upper:
  assumes "0 < x"
  shows "fl x \<le> 2 powr of_int (double_exponent x + 1)"
proof -
  have "x \<noteq> 0" using assms by simp
  then have "\<bar>x\<bar> < 2 powr of_int (\<lfloor>log 2 \<bar>x\<bar>\<rfloor> + 1)" by (rule exponent_bounds)
  also have "\<dots> \<le> 2 powr of_int (double_exponent x + 1)"
    by (simp add: double_exponent_def)
  finally have "x \<le> 2 powr of_int (double_exponent x + 1)" using assms by simp
  then have "x / double_unit x \<le> 2 powr of_int (double_exponent x + 1) / double_unit x"
    using double_unit_pos [of x] by (simp add: divide_right_mono)
  also have "\<dots> = of_int (2 ^ 53)"
    by (simp add: double_unit_def powr_unit_ratio)
  finally have "round_half_even (x / double_unit x) \<le> round_half_even (of_int (2 ^ 53))"
    by (rule rhe_mono)
  then have "round_half_even (x / double_unit x) \<le> 2 ^ 53" by (simp only: rhe_of_int)
  then have "real_of_int (round_half_even (x / double_unit x)) \<le> 2 ^ 53"
    by (metis of_int_le_iff of_int_numeral of_int_power)
  then have "fl x \<le> 2 ^ 53 * double_unit x"
    unfolding fl_def using double_unit_pos [of x] by (simp add: mult_right_mono)
  also have "\<dots> = 2 powr of_int (double_exponent x + 1)"
    using powr_unit_ratio(1) [of "of_int (double_exponent x)"] double_unit_pos [of x]
    by (simp add: double_unit_def field_simps)
  finally show ?thesis .
qed

lemma fl_lower:
  assumes "0 < x" and "- 1022 \<le> \<lfloor>log 2 \<bar>x\<bar>\<rfloor>"
  shows "2 powr of_int (double_exponent x) \<le> fl x"
proof -
  have e: "double_exponent x = \<lfloor>log 2 \<bar>x\<bar>\<rfloor>" using assms(2) by (simp add: double_exponent_def)
  have "x \<noteq> 0" using assms by simp
  then have "2 powr of_int \<lfloor>log 2 \<bar>x\<bar>\<rfloor> \<le> \<bar>x\<bar>" by (rule exponent_bounds)
  then have "2 powr of_int (double_exponent x) \<le> x" using assms(1) e by simp
  then have "2 powr of_int (double_exponent x) / double_unit x \<le> x / double_unit x"
    using double_unit_pos [of x] by (simp add: divide_right_mono)
  moreover have "2 powr of_int (double_exponent x) / double_unit x = of_int (2 ^ 52)"
    by (simp add: double_unit_def powr_unit_ratio)
  ultimately have "of_int (2 ^ 52) \<le> x / double_unit x" by simp
  then have "round_half_even (of_int (2 ^ 52)) \<le> round_half_even (x / double_unit x)"
    by (rule rhe_mono)
  then have "2 ^ 52 \<le> round_half_even (x / double_unit x)" by (simp only: rhe_of_int)
  then have "2 ^ 52 \<le> real_of_int (round_half_even (x / double_unit x))"
    by (metis of_int_le_iff of_int_numeral of_int_power)
  then have "2 ^ 52 * double_unit x \<le> fl x"
    unfolding fl_def using double_unit_pos [of x] by (simp add: mult_right_mono)
  moreover have "2 ^ 52 * double_unit x = 2 powr of_int (double_exponent x)"
    using powr_unit_ratio(2) [of "of_int (double_exponent x)"] double_unit_pos [of x]
    by (simp add: double_unit_def field_simps)
  ultimately show ?thesis by simp
qed

lemma fl_mono_pos:
  assumes "0 < x" and "x \<le> y"
  shows "fl x \<le> fl y"
proof (cases "double_exponent x = double_exponent y")
  case True
  then have u: "double_unit y = double_unit x" by (simp add: double_unit_def)
  have "x / double_unit x \<le> y / double_unit x"
    using assms(2) double_unit_pos [of x] by (simp add: divide_right_mono)
  then have "round_half_even (x / double_unit x) \<le> round_half_even (y / double_unit x)"
    by (rule rhe_mono)
  then show ?thesis
    unfolding fl_def u using double_unit_pos [of x] by (simp add: mult_right_mono)
next
  case False
  have "double_exponent x \<le> double_exponent y" using assms by (rule double_exponent_mono)
  with False have lt: "double_exponent x + 1 \<le> double_exponent y" by simp
  have "- 1022 \<le> double_exponent x" by (simp add: double_exponent_def)
  with lt have "- 1022 < double_exponent y" by simp
  then have n: "- 1022 \<le> \<lfloor>log 2 \<bar>y\<bar>\<rfloor>" by (simp add: double_exponent_def max_def split: if_splits)
  have "fl x \<le> 2 powr of_int (double_exponent x + 1)" using assms(1) by (rule fl_upper)
  also have "\<dots> \<le> 2 powr of_int (double_exponent y)" using lt by simp
  also have "\<dots> \<le> fl y" using assms n by (intro fl_lower) simp_all
  finally show ?thesis .
qed

lemma fl_mono:
  assumes "x \<le> y"
  shows "fl x \<le> fl y"
proof -
  consider "0 < x" | "x \<le> 0" "0 \<le> y" | "y < 0" by linarith
  then show ?thesis
  proof cases
    case 1
    then show ?thesis using assms by (rule fl_mono_pos)
  next
    case 2
    have "0 \<le> fl (- x)" using 2(1) by (intro fl_nonneg) simp
    then have "fl x \<le> 0" by (simp add: fl_minus)
    moreover have "0 \<le> fl y" using 2(2) by (rule fl_nonneg)
    ultimately show ?thesis by simp
  next
    case 3
    then have "0 < - y" "- y \<le> - x" using assms by simp_all
    then have "fl (- y) \<le> fl (- x)" by (rule fl_mono_pos)
    then show ?thesis by (simp add: fl_minus)
  qed
qed

lemma fl_abs_error:
  assumes "\<bar>x\<bar> < 2 powr of_int m" and "- 1021 \<le> m"
  shows "\<bar>fl x - x\<bar> \<le> 2 powr of_int (m - 54)"
proof (cases "x = 0")
  case True
  then show ?thesis by (simp add: fl_zero)
next
  case False
  then have "2 powr of_int \<lfloor>log 2 \<bar>x\<bar>\<rfloor> \<le> \<bar>x\<bar>" by (rule exponent_bounds)
  with assms(1) have "(2::real) powr of_int \<lfloor>log 2 \<bar>x\<bar>\<rfloor> < 2 powr of_int m" by linarith
  then have "\<lfloor>log 2 \<bar>x\<bar>\<rfloor> < m" by simp
  then have "double_exponent x \<le> m - 1" using assms(2) by (simp add: double_exponent_def)
  then have "double_unit x \<le> 2 powr of_int (m - 1 - 52)"
    unfolding double_unit_def by simp
  then have "double_unit x / 2 \<le> 2 powr of_int (m - 53) / 2" by simp
  also have "\<dots> = 2 powr of_int (m - 54)"
  proof -
    have "(2::real) powr of_int (m - 53) = 2 powr (of_int (m - 54) + 1)" by simp
    also have "\<dots> = 2 powr of_int (m - 54) * 2" by (simp only: powr_add powr_one)
    finally show ?thesis by simp
  qed
  finally show ?thesis using fl_error [of x] by simp
qed

lemma fl_rel_error:
  assumes "2 powr (- 1022) \<le> \<bar>x\<bar>"
  shows "\<bar>fl x - x\<bar> \<le> \<bar>x\<bar> / 2 ^ 53"
proof -
  have p: "0 < \<bar>x\<bar>" using assms by (smt (verit) powr_gt_zero)
  then have nz: "x \<noteq> 0" by simp
  have "of_int (- 1022) \<le> log 2 \<bar>x\<bar>"
    using assms p by (subst le_log_iff) simp_all
  then have "- 1022 \<le> \<lfloor>log 2 \<bar>x\<bar>\<rfloor>" by (simp only: le_floor_iff)
  then have e: "double_exponent x = \<lfloor>log 2 \<bar>x\<bar>\<rfloor>" by (simp add: double_exponent_def)
  have "double_unit x = 2 powr of_int \<lfloor>log 2 \<bar>x\<bar>\<rfloor> / 2 ^ 52"
    using powr_unit_ratio(2) [of "of_int \<lfloor>log 2 \<bar>x\<bar>\<rfloor>"]
    by (simp add: double_unit_def e field_simps)
  also have "\<dots> \<le> \<bar>x\<bar> / 2 ^ 52"
    using exponent_bounds(1) [OF nz] by (simp add: divide_right_mono)
  finally have "double_unit x / 2 \<le> \<bar>x\<bar> / 2 ^ 52 / 2" by simp
  then show ?thesis using fl_error [of x] by simp
qed

subsection \<open>Resetting the ratios\<close>

lemma reset_spacing_ref:
  "spacing_ref (SPHAdaptation_resetAdaptationRatios K D cls st h r) =
     spacing_ref st * system_refinement_ratio st / r"
  by (simp add: SPHAdaptation_resetAdaptationRatios_def)

lemma reset_system_refinement_ratio:
  "system_refinement_ratio (SPHAdaptation_resetAdaptationRatios K D cls st h r) = r"
  by (simp add: SPHAdaptation_resetAdaptationRatios_def)


lemma reset_twice:
  assumes "r \<noteq> 0"
  shows "SPHAdaptation_resetAdaptationRatios K D cls
           (SPHAdaptation_resetAdaptationRatios K D cls st h r) h r =
         SPHAdaptation_resetAdaptationRatios K D cls st h r"
  using assms by (simp add: SPHAdaptation_resetAdaptationRatios_def)

lemma PSM_reset_twice:
  assumes "r \<noteq> 0"
  shows "ParticleSplitAndMerge_resetAdaptationRatios K D
           (ParticleSplitAndMerge_resetAdaptationRatios K D st h r) h r =
         ParticleSplitAndMerge_resetAdaptationRatios K D st h r"
  using assms
  by (simp add: ParticleSplitAndMerge_resetAdaptationRatios_def
      SPHAdaptation_resetAdaptationRatios_def)

text \<open>
  C7. \<^verbatim>\<open>resetAdaptationRatios(new_ratio, new_system_ratio)\<close> multiplies the stored
  reference spacing by the old system refinement ratio over the new one; a second call
  with the same arguments changes nothing in the object; and a reset followed by a reset
  with the original ratios gives back the reference spacing (exactly, in exact
  arithmetic). The ratios are non-zero, as every valid configuration has them.
\<close>

theorem resetAdaptationRatios_rescales_idempotent_roundtrip:
  assumes "new_system_refinement_ratio \<noteq> 0" and "system_refinement_ratio st \<noteq> 0"
  shows "spacing_ref (SPHAdaptation_resetAdaptationRatios K D cls st
             new_ratio new_system_refinement_ratio) =
           spacing_ref st * (system_refinement_ratio st / new_system_refinement_ratio)
       \<and> SPHAdaptation_resetAdaptationRatios K D cls
           (SPHAdaptation_resetAdaptationRatios K D cls st new_ratio new_system_refinement_ratio)
             new_ratio new_system_refinement_ratio =
           SPHAdaptation_resetAdaptationRatios K D cls st new_ratio new_system_refinement_ratio
       \<and> spacing_ref (SPHAdaptation_resetAdaptationRatios K D cls
           (SPHAdaptation_resetAdaptationRatios K D cls st new_ratio new_system_refinement_ratio)
             (h_spacing_ratio st) (system_refinement_ratio st)) =
           spacing_ref st"
proof (intro conjI)
  show "spacing_ref (SPHAdaptation_resetAdaptationRatios K D cls st
             new_ratio new_system_refinement_ratio) =
           spacing_ref st * (system_refinement_ratio st / new_system_refinement_ratio)"
    by (simp add: reset_spacing_ref)
  show "SPHAdaptation_resetAdaptationRatios K D cls
           (SPHAdaptation_resetAdaptationRatios K D cls st new_ratio new_system_refinement_ratio)
             new_ratio new_system_refinement_ratio =
           SPHAdaptation_resetAdaptationRatios K D cls st new_ratio new_system_refinement_ratio"
    using assms(1) by (rule reset_twice)
  show "spacing_ref (SPHAdaptation_resetAdaptationRatios K D cls
           (SPHAdaptation_resetAdaptationRatios K D cls st new_ratio new_system_refinement_ratio)
             (h_spacing_ratio st) (system_refinement_ratio st)) =
           spacing_ref st"
    using assms by (simp add: reset_spacing_ref reset_system_refinement_ratio)
qed

theorem resetAdaptationRatios_rescales_idempotent_roundtrip_witness:
  "(2::real) \<noteq> 0 \<and> system_refinement_ratio sample_adaptation \<noteq> 0
   \<and> spacing_ref (SPHAdaptation_resetAdaptationRatios sample_kernels 2 Class_SPHAdaptation
         sample_adaptation (23/20) 2) = 1 / 20
   \<and> SPHAdaptation_resetAdaptationRatios sample_kernels 2 Class_SPHAdaptation
        (SPHAdaptation_resetAdaptationRatios sample_kernels 2 Class_SPHAdaptation
          sample_adaptation (23/20) 2) (23/20) 2 =
       SPHAdaptation_resetAdaptationRatios sample_kernels 2 Class_SPHAdaptation
          sample_adaptation (23/20) 2
   \<and> spacing_ref (SPHAdaptation_resetAdaptationRatios sample_kernels 2 Class_SPHAdaptation
        (SPHAdaptation_resetAdaptationRatios sample_kernels 2 Class_SPHAdaptation
          sample_adaptation (23/20) 2) (13/10) 1) = 1 / 10"
proof -
  have a: "(2::real) \<noteq> 0" by simp
  have c: "spacing_ref sample_adaptation = 1 / 10"
    "system_refinement_ratio sample_adaptation = 1"
    "h_spacing_ratio sample_adaptation = 13 / 10"
    by (simp_all add: sample_adaptation_def SPHAdaptation_ctor_def
        SPHAdaptation_ctor_resolution_def sample_body_def Let_def)
  have b: "system_refinement_ratio sample_adaptation \<noteq> 0" by (simp add: c)
  from resetAdaptationRatios_rescales_idempotent_roundtrip [OF a b,
      of sample_kernels 2 Class_SPHAdaptation "23/20"]
  show ?thesis by (simp add: c)
qed

subsection \<open>Objects of class ParticleSplitAndMerge after construction and resets\<close>

lemma PSM_ctor_fields:
  "spacing_min (ParticleSplitAndMerge_ctor K D eps body h r L) =
     ParticleSplitAndMerge_MostRefinedSpacing D
       (spacing_ref (ParticleSplitAndMerge_ctor K D eps body h r L)) L"
  "minimum_volume (ParticleSplitAndMerge_ctor K D eps body h r L) =
     powerN (spacing_min (ParticleSplitAndMerge_ctor K D eps body h r L)) (int D)"
  "maximum_volume (ParticleSplitAndMerge_ctor K D eps body h r L) =
     powerN (spacing_ref (ParticleSplitAndMerge_ctor K D eps body h r L)) (int D)"
  "local_refinement_level (ParticleSplitAndMerge_ctor K D eps body h r L) = L"
  "spacing_ref (ParticleSplitAndMerge_ctor K D eps body h r L) =
     resolution_ref (getSPHSystem body) / r"
  "system_refinement_ratio (ParticleSplitAndMerge_ctor K D eps body h r L) = r"
  by (simp_all add: ParticleSplitAndMerge_ctor_def ParticleWithLocalRefinement_ctor_def
      SPHAdaptation_ctor_def SPHAdaptation_ctor_resolution_def Let_def
      SPHAdaptation.defs ParticleWithLocalRefinement.defs ParticleSplitAndMerge.defs)

lemma PSM_reset_fields:
  "spacing_min (ParticleSplitAndMerge_resetAdaptationRatios K D st h r) =
     ParticleSplitAndMerge_MostRefinedSpacing D
       (spacing_ref (ParticleSplitAndMerge_resetAdaptationRatios K D st h r))
       (local_refinement_level st)"
  "minimum_volume (ParticleSplitAndMerge_resetAdaptationRatios K D st h r) =
     powerN (spacing_min (ParticleSplitAndMerge_resetAdaptationRatios K D st h r)) (int D)"
  "maximum_volume (ParticleSplitAndMerge_resetAdaptationRatios K D st h r) =
     powerN (spacing_ref (ParticleSplitAndMerge_resetAdaptationRatios K D st h r)) (int D)"
  "local_refinement_level (ParticleSplitAndMerge_resetAdaptationRatios K D st h r) =
     local_refinement_level st"
  "spacing_ref (ParticleSplitAndMerge_resetAdaptationRatios K D st h r) =
     spacing_ref st * system_refinement_ratio st / r"
  "system_refinement_ratio (ParticleSplitAndMerge_resetAdaptationRatios K D st h r) = r"
  by (simp_all add: ParticleSplitAndMerge_resetAdaptationRatios_def
      SPHAdaptation_resetAdaptationRatios_def Let_def)

lemma PSM_consistent_ctor:
  "PSM_consistent D L (ParticleSplitAndMerge_ctor K D eps body h r L)"
  unfolding PSM_consistent_def using PSM_ctor_fields(1-4) [of K D eps body h r L] by simp

lemma PSM_consistent_reset:
  "PSM_consistent D L st \<Longrightarrow>
     PSM_consistent D L (ParticleSplitAndMerge_resetAdaptationRatios K D st h r)"
  unfolding PSM_consistent_def using PSM_reset_fields(1-4) [of K D st h r] by simp

lemma PSM_consistent_resets:
  "PSM_consistent D L st \<Longrightarrow> PSM_consistent D L (ParticleSplitAndMerge_resets K D st calls)"
proof (induction calls arbitrary: st)
  case Nil
  then show ?case by simp
next
  case (Cons c calls)
  obtain h r where c: "c = (h, r)" by (cases c)
  from Cons.prems have "PSM_consistent D L (ParticleSplitAndMerge_resetAdaptationRatios K D st h r)"
    by (rule PSM_consistent_reset)
  then show ?case using Cons.IH c by simp
qed

lemma PSM_consistent_reachable:
  "PSM_consistent D L
     (ParticleSplitAndMerge_resets K D (ParticleSplitAndMerge_ctor K D eps body h r L) calls)"
  by (rule PSM_consistent_resets) (rule PSM_consistent_ctor)

lemma four_powr_half: "(4::real) powr (1 / 2) = 2"
proof -
  have "(4::real) powr (1 / 2) = sqrt 4" by (simp add: powr_half_sqrt)
  then show ?thesis by simp
qed

lemma sample_split_merge_fields:
  "spacing_ref sample_split_merge = 1 / 20"
  "spacing_min sample_split_merge = 1 / 40"
  "minimum_volume sample_split_merge = 1 / 1600"
  "maximum_volume sample_split_merge = 1 / 400"
proof -
  have c: "spacing_ref (ParticleSplitAndMerge_ctor sample_kernels 2 sample_Eps sample_body (13/10) 1 2) = 1 / 10"
    "system_refinement_ratio (ParticleSplitAndMerge_ctor sample_kernels 2 sample_Eps sample_body (13/10) 1 2) = 1"
    "local_refinement_level (ParticleSplitAndMerge_ctor sample_kernels 2 sample_Eps sample_body (13/10) 1 2) = 2"
    by (simp_all add: PSM_ctor_fields sample_body_def)
  show r: "spacing_ref sample_split_merge = 1 / 20"
    by (simp add: sample_split_merge_def PSM_reset_fields c)
  show m: "spacing_min sample_split_merge = 1 / 40"
    by (simp add: sample_split_merge_def PSM_reset_fields c
        ParticleSplitAndMerge_MostRefinedSpacing_def powerN_def four_powr_half)
  have "minimum_volume sample_split_merge = powerN (spacing_min sample_split_merge) (int 2)"
    unfolding sample_split_merge_def by (simp add: PSM_reset_fields)
  then show "minimum_volume sample_split_merge = 1 / 1600"
    by (simp add: m powerN_def power2_eq_square)
  have "maximum_volume sample_split_merge = powerN (spacing_ref sample_split_merge) (int 2)"
    unfolding sample_split_merge_def by (simp add: PSM_reset_fields)
  then show "maximum_volume sample_split_merge = 1 / 400"
    by (simp add: r powerN_def power2_eq_square)
qed

lemma sample_Eps_pos: "0 < sample_Eps"
  by (simp add: sample_Eps_def)

lemma tiny_le: "(2::real) powr (- 1022) \<le> 1 / 2 ^ 52"
proof -
  have "(2::real) powr (- 1022) \<le> 2 powr (- 52)" by simp
  also have "\<dots> = 1 / 2 ^ 52" by (simp add: powr_minus_divide)
  finally show ?thesis .
qed

lemma margin_not_absorbed:
  assumes "1 / 2 ^ 52 \<le> eps" and "eps \<le> 1" and "0 \<le> mv" and "mv \<le> 16"
    and "fl (2 * mv) = 2 * mv"
  shows "fl (fl (2 * mv) - fl (10 * eps)) \<le> 2 * mv - eps"
proof -
  have pos: "0 < eps" using assms(1) by (smt (verit) divide_pos_pos zero_less_numeral zero_less_power zero_less_one)
  have "2 powr (- 1022) \<le> \<bar>10 * eps\<bar>" using tiny_le assms(1) pos by simp
  then have "\<bar>fl (10 * eps) - 10 * eps\<bar> \<le> \<bar>10 * eps\<bar> / 2 ^ 53" by (rule fl_rel_error)
  moreover have "\<bar>10 * eps\<bar> = 10 * eps" using pos by simp
  ultimately have a: "\<bar>fl (10 * eps) - 10 * eps\<bar> \<le> 10 * eps / 2 ^ 53" by simp
  have b: "10 * eps - 10 * eps / 2 ^ 53 \<le> fl (10 * eps)"
    "fl (10 * eps) \<le> 10 * eps + 10 * eps / 2 ^ 53"
    using a by linarith+
  have bp: "0 < fl (10 * eps)" using b(1) pos by simp
  have bs: "fl (10 * eps) < 32" using b(2) assms(2) by simp
  have "\<bar>2 * mv - fl (10 * eps)\<bar> < 2 powr of_int 5"
    using bp bs assms(3,4) by (simp add: abs_less_iff)
  then have "\<bar>fl (2 * mv - fl (10 * eps)) - (2 * mv - fl (10 * eps))\<bar> \<le> 2 powr of_int (5 - 54)"
    by (rule fl_abs_error) simp
  moreover have "(2::real) powr of_int (5 - 54) = 1 / 2 ^ 49" by (simp add: powr_minus_divide)
  ultimately have "fl (2 * mv - fl (10 * eps)) \<le> 2 * mv - fl (10 * eps) + 1 / 2 ^ 49"
    by (simp add: abs_le_iff)
  then have "fl (2 * mv - fl (10 * eps)) \<le> 2 * mv - eps"
    using b(1) assms(1) by simp
  then show ?thesis by (simp only: assms(5))
qed

lemma dyadic_split_merge_fields:
  "spacing_ref dyadic_split_merge = 1 / 16"
  "spacing_min dyadic_split_merge = 1 / 32"
  "minimum_volume dyadic_split_merge = 1 / 1024"
  "maximum_volume dyadic_split_merge = 1 / 256"
proof -
  have c: "spacing_ref (ParticleSplitAndMerge_ctor sample_kernels 2 sample_Eps dyadic_body (13/10) 1 2) = 1 / 8"
    "system_refinement_ratio (ParticleSplitAndMerge_ctor sample_kernels 2 sample_Eps dyadic_body (13/10) 1 2) = 1"
    "local_refinement_level (ParticleSplitAndMerge_ctor sample_kernels 2 sample_Eps dyadic_body (13/10) 1 2) = 2"
    by (simp_all add: PSM_ctor_fields dyadic_body_def)
  show r: "spacing_ref dyadic_split_merge = 1 / 16"
    by (simp add: dyadic_split_merge_def PSM_reset_fields c)
  show m: "spacing_min dyadic_split_merge = 1 / 32"
    by (simp add: dyadic_split_merge_def PSM_reset_fields c
        ParticleSplitAndMerge_MostRefinedSpacing_def powerN_def four_powr_half)
  have "minimum_volume dyadic_split_merge = powerN (spacing_min dyadic_split_merge) (int 2)"
    unfolding dyadic_split_merge_def by (simp add: PSM_reset_fields)
  then show "minimum_volume dyadic_split_merge = 1 / 1024"
    by (simp add: m powerN_def power2_eq_square)
  have "maximum_volume dyadic_split_merge = powerN (spacing_ref dyadic_split_merge) (int 2)"
    unfolding dyadic_split_merge_def by (simp add: PSM_reset_fields)
  then show "maximum_volume dyadic_split_merge = 1 / 256"
    by (simp add: r powerN_def power2_eq_square)
qed

lemma coarse_split_merge_fields:
  "spacing_min coarse_split_merge = 5"
  "minimum_volume coarse_split_merge = 25"
proof -
  show s: "spacing_min coarse_split_merge = 5"
    unfolding coarse_split_merge_def
    by (simp add: PSM_ctor_fields coarse_body_def ParticleSplitAndMerge_MostRefinedSpacing_def
        powerN_def)
  have "minimum_volume coarse_split_merge = powerN (spacing_min coarse_split_merge) (int 2)"
    unfolding coarse_split_merge_def by (simp add: PSM_ctor_fields(2))
  then show "minimum_volume coarse_split_merge = 25"
    by (simp add: s powerN_def power2_eq_square)
qed

lemma fl_ten_sample_Eps: "fl (10 * sample_Eps) = 10 * sample_Eps"
  using fl_representable [of "10 * 2 ^ 49" "- 101"]
  by (simp add: powr_minus_divide sample_Eps_def)

lemma fl_fifty: "fl 50 = 50"
  using fl_representable [of "50 * 2 ^ 47" "- 47"]
  by (simp add: powr_minus_divide)

lemma fl_fifty_less_margin: "fl (50 - 10 * sample_Eps) = 50"
  using fl_near [of "50 - 10 / 2 ^ 52" "50 * 2 ^ 47" "- (5 / 16)" "- 47"]
  by (simp add: powr_minus_divide sample_Eps_def)

lemma fl_two_to_minus_9: "fl (1 / 512) = 1 / 512"
  using fl_representable [of "2 ^ 52" "- 61"]
  by (simp add: powr_minus_divide)


text \<open>
  C3. An object of class \<^verbatim>\<open>ParticleSplitAndMerge\<close> with refinement level \<open>L\<close>, after its
  construction and after every further call of \<^verbatim>\<open>resetAdaptationRatios\<close>, has finest
  spacing = reference spacing / \<open>(2^L)^(1/D)\<close>, minimum volume = finest spacing\<open>^D\<close> and
  maximum volume = reference spacing\<open>^D\<close>, in dimension \<open>D\<close> = 2 or 3.
\<close>

theorem ParticleSplitAndMerge_spacing_and_volumes:
  assumes "0 \<le> L" and "D = 2 \<or> D = 3"
    and "st = ParticleSplitAndMerge_resets K D
                (ParticleSplitAndMerge_ctor K D eps body h r L) calls"
  shows "spacing_min st = spacing_ref st / (2 ^ nat L) powr (1 / real D)
       \<and> minimum_volume st = spacing_min st ^ D
       \<and> maximum_volume st = spacing_ref st ^ D"
proof -
  have "PSM_consistent D L st"
    unfolding assms(3) by (rule PSM_consistent_reachable)
  then show ?thesis
    by (simp add: PSM_consistent_def ParticleSplitAndMerge_MostRefinedSpacing_def powerN_def)
qed

theorem ParticleSplitAndMerge_spacing_and_volumes_witness:
  "(0::int) \<le> 2 \<and> ((2::nat) = 2 \<or> (2::nat) = 3)
   \<and> spacing_ref sample_split_merge = 1 / 20
   \<and> spacing_min sample_split_merge = (1 / 20) / (2 ^ nat 2) powr (1 / real 2)
   \<and> minimum_volume sample_split_merge = (1 / 40) ^ 2
   \<and> maximum_volume sample_split_merge = (1 / 20) ^ 2"
proof -
  have a: "(0::int) \<le> 2" and b: "(2::nat) = 2 \<or> (2::nat) = 3" by simp_all
  from ParticleSplitAndMerge_spacing_and_volumes [OF a b sample_split_merge_def]
  show ?thesis by (simp add: sample_split_merge_fields)
qed

text \<open>
  C4, as amended. \<^verbatim>\<open>isSplitAllowed(v)\<close> is true exactly when
  \<open>v - 2 * minimum_volume > - eps\<close>, and it is true at \<open>2 * minimum_volume\<close>. At the double
  that the subtraction \<open>2 * minimum_volume - 10 * eps\<close> yields it is false as long as the
  margin survives that subtraction: for a minimum volume (a double) between 0 and 16 and
  a margin from \<open>2^-52\<close> on.
\<close>

theorem isSplitAllowed_threshold:
  assumes "0 < eps"
  shows "(isSplitAllowed eps st v \<longleftrightarrow> v - 2 * minimum_volume st > - eps)
       \<and> isSplitAllowed eps st (2 * minimum_volume st)
       \<and> (1 / 2 ^ 52 \<le> eps \<and> eps \<le> 1
            \<and> 0 \<le> minimum_volume st \<and> minimum_volume st \<le> 16
            \<and> fl (2 * minimum_volume st) = 2 * minimum_volume st
          \<longrightarrow> \<not> isSplitAllowed eps st (twice_minimum_volume_less_10_Eps eps st))"
proof (intro conjI impI)
  show "isSplitAllowed eps st v \<longleftrightarrow> v - 2 * minimum_volume st > - eps"
    by (simp add: isSplitAllowed_def)
  show "isSplitAllowed eps st (2 * minimum_volume st)"
    using assms by (simp add: isSplitAllowed_def)
next
  assume h: "1 / 2 ^ 52 \<le> eps \<and> eps \<le> 1
            \<and> 0 \<le> minimum_volume st \<and> minimum_volume st \<le> 16
            \<and> fl (2 * minimum_volume st) = 2 * minimum_volume st"
  then have "twice_minimum_volume_less_10_Eps eps st \<le> 2 * minimum_volume st - eps"
    unfolding twice_minimum_volume_less_10_Eps_def by (intro margin_not_absorbed) simp_all
  then show "\<not> isSplitAllowed eps st (twice_minimum_volume_less_10_Eps eps st)"
    by (simp add: isSplitAllowed_def)
qed

theorem isSplitAllowed_threshold_witness:
  "0 < sample_Eps \<and> 1 / 2 ^ 52 \<le> sample_Eps \<and> sample_Eps \<le> 1
   \<and> 0 \<le> minimum_volume dyadic_split_merge \<and> minimum_volume dyadic_split_merge \<le> 16
   \<and> fl (2 * minimum_volume dyadic_split_merge) = 2 * minimum_volume dyadic_split_merge
   \<and> isSplitAllowed sample_Eps dyadic_split_merge (1 / 512)
   \<and> \<not> isSplitAllowed sample_Eps dyadic_split_merge
         (twice_minimum_volume_less_10_Eps sample_Eps dyadic_split_merge)"
proof -
  have h: "1 / 2 ^ 52 \<le> sample_Eps \<and> sample_Eps \<le> 1
    \<and> 0 \<le> minimum_volume dyadic_split_merge \<and> minimum_volume dyadic_split_merge \<le> 16
    \<and> fl (2 * minimum_volume dyadic_split_merge) = 2 * minimum_volume dyadic_split_merge"
    by (simp add: dyadic_split_merge_fields sample_Eps_def fl_two_to_minus_9)
  note T = isSplitAllowed_threshold [OF sample_Eps_pos, of dyadic_split_merge]
  have n: "\<not> isSplitAllowed sample_Eps dyadic_split_merge
         (twice_minimum_volume_less_10_Eps sample_Eps dyadic_split_merge)"
    using T h by blast
  have "isSplitAllowed sample_Eps dyadic_split_merge (2 * minimum_volume dyadic_split_merge)"
    using T by blast
  then have s: "isSplitAllowed sample_Eps dyadic_split_merge (1 / 512)"
    by (simp add: dyadic_split_merge_fields)
  show ?thesis using h n s sample_Eps_pos by blast
qed

text \<open>
  C4 as stated fails for a large minimum volume: a two-dimensional body of resolution 5
  at level 0 has minimum volume 25, the double subtraction \<open>50 - 10 * 2^-52\<close> returns 50,
  and \<^verbatim>\<open>isSplitAllowed\<close> is true there.
\<close>

theorem isSplitAllowed_counterexample:
  "minimum_volume coarse_split_merge = 25
   \<and> twice_minimum_volume_less_10_Eps sample_Eps coarse_split_merge = 50
   \<and> isSplitAllowed sample_Eps coarse_split_merge
       (twice_minimum_volume_less_10_Eps sample_Eps coarse_split_merge)"
proof -
  have v: "twice_minimum_volume_less_10_Eps sample_Eps coarse_split_merge = 50"
    by (simp add: twice_minimum_volume_less_10_Eps_def coarse_split_merge_fields
        fl_fifty fl_ten_sample_Eps fl_fifty_less_margin)
  have "isSplitAllowed sample_Eps coarse_split_merge 50"
    using sample_Eps_pos by (simp add: isSplitAllowed_def coarse_split_merge_fields)
  then show ?thesis by (simp add: v coarse_split_merge_fields)
qed

text \<open>
  C5, as amended. On an object of class \<^verbatim>\<open>ParticleSplitAndMerge\<close>, after construction and
  any resets, \<^verbatim>\<open>mergeResolutionCheck(v)\<close> is true exactly when
  \<open>v - 1.2 * minimum_volume < eps\<close>; it is true at \<open>minimum_volume\<close> when the minimum volume
  is not negative; and it is false at \<open>1.3 * minimum_volume\<close> exactly when the minimum
  volume is at least \<open>10 * eps\<close>.
\<close>

theorem mergeResolutionCheck_threshold:
  assumes "0 < eps"
    and "st = ParticleSplitAndMerge_resets K D
                (ParticleSplitAndMerge_ctor K D eps body h r L) calls"
  shows "(mergeResolutionCheck D eps st v \<longleftrightarrow> v - 1.2 * minimum_volume st < eps)
       \<and> (0 \<le> minimum_volume st \<longrightarrow> mergeResolutionCheck D eps st (minimum_volume st))
       \<and> (\<not> mergeResolutionCheck D eps st (1.3 * minimum_volume st)
            \<longleftrightarrow> 10 * eps \<le> minimum_volume st)"
proof -
  have "PSM_consistent D L st"
    unfolding assms(2) by (rule PSM_consistent_reachable)
  then have m: "powerN (spacing_min st) (int D) = minimum_volume st"
    by (simp add: PSM_consistent_def)
  show ?thesis using assms(1) by (auto simp add: mergeResolutionCheck_def m)
qed

theorem mergeResolutionCheck_threshold_witness:
  "0 < sample_Eps
   \<and> minimum_volume sample_split_merge = 1 / 1600
   \<and> mergeResolutionCheck 2 sample_Eps sample_split_merge (1 / 1600)
   \<and> \<not> mergeResolutionCheck 2 sample_Eps sample_split_merge (1.3 * (1 / 1600))"
proof -
  have "10 * sample_Eps \<le> 1 / 1600" by (simp add: sample_Eps_def)
  moreover have "- (1 / 8000) < sample_Eps" using sample_Eps_pos by simp
  ultimately show ?thesis
    using mergeResolutionCheck_threshold [OF sample_Eps_pos sample_split_merge_def]
    by (simp add: sample_split_merge_fields sample_Eps_pos)
qed

text \<open>
  C5 as stated fails for a small minimum volume: a two-dimensional body of resolution
  \<open>10^-8\<close> at level 0 has minimum volume \<open>10^-16\<close>, and at 1.3 times that volume the check
  compares \<open>10^-17\<close> with the margin and returns true.
\<close>

theorem mergeResolutionCheck_counterexample:
  "minimum_volume (ParticleSplitAndMerge_ctor sample_kernels 2 sample_Eps fine_body (13/10) 1 0)
     = 1 / 10 ^ 16
   \<and> mergeResolutionCheck 2 sample_Eps
       (ParticleSplitAndMerge_ctor sample_kernels 2 sample_Eps fine_body (13/10) 1 0)
       (1.3 * minimum_volume
          (ParticleSplitAndMerge_ctor sample_kernels 2 sample_Eps fine_body (13/10) 1 0))"
proof -
  define st where
    "st = ParticleSplitAndMerge_ctor sample_kernels 2 sample_Eps fine_body (13/10) 1 0"
  have s: "spacing_min st = 1 / 10 ^ 8"
    unfolding st_def
    by (simp add: PSM_ctor_fields fine_body_def ParticleSplitAndMerge_MostRefinedSpacing_def
        powerN_def)
  have "minimum_volume st = powerN (spacing_min st) (int 2)"
    unfolding st_def by (simp add: PSM_ctor_fields(2))
  then have m: "minimum_volume st = 1 / 10 ^ 16"
    by (simp add: s powerN_def power2_eq_square)
  have "mergeResolutionCheck 2 sample_Eps st (1.3 * minimum_volume st)"
    by (simp add: m mergeResolutionCheck_def s powerN_def power2_eq_square sample_Eps_def)
  with m show ?thesis unfolding st_def by simp
qed




subsection \<open>Objects of class ParticleWithLocalRefinement\<close>

lemma PWLR_ctor_fields:
  "spacing_ref (ParticleWithLocalRefinement_ctor K D eps body h r L) =
     resolution_ref (getSPHSystem body) / r"
  "system_refinement_ratio (ParticleWithLocalRefinement_ctor K D eps body h r L) = r"
  "local_refinement_level (ParticleWithLocalRefinement_ctor K D eps body h r L) = L"
  "spacing_min (ParticleWithLocalRefinement_ctor K D eps body h r L) =
     spacing_ref (ParticleWithLocalRefinement_ctor K D eps body h r L) / powerN 2 L"
  "h_ratio_max (ParticleWithLocalRefinement_ctor K D eps body h r L) = powerN 2 L"
  "finest_spacing_bound (ParticleWithLocalRefinement_ctor K D eps body h r L) =
     fl (spacing_min (ParticleWithLocalRefinement_ctor K D eps body h r L) + eps)"
  "coarsest_spacing_bound (ParticleWithLocalRefinement_ctor K D eps body h r L) =
     fl (spacing_ref (ParticleWithLocalRefinement_ctor K D eps body h r L) - eps)"
  by (simp_all add: ParticleWithLocalRefinement_ctor_def SPHAdaptation_ctor_def
      SPHAdaptation_ctor_resolution_def Let_def SPHAdaptation.defs
      ParticleWithLocalRefinement.defs SPHAdaptation_MostRefinedSpacing_def)

lemma sample_kernels_fields:
  "KernelSize sample_kernels k = 2"
  "W_1D sample_kernels k q = (1 - q / 2) ^ 4 * (1 + 2 * q)"
  by (simp_all add: sample_kernels_def)

lemma fl_dyadic_bounds:
  "fl (1 / 8) = 1 / 8"
  "fl (1 / 8 + sample_Eps) = 1 / 8 + sample_Eps"
  "fl (1 / 8 - sample_Eps) = 1 / 8 - sample_Eps"
  "fl (1 / 32 + sample_Eps) = 1 / 32 + sample_Eps"
  using fl_representable [of "2 ^ 52" "- 55"]
    fl_representable [of "2 ^ 52 + 8" "- 55"]
    fl_representable [of "2 ^ 53 - 16" "- 56"]
    fl_representable [of "2 ^ 52 + 32" "- 57"]
  by (simp_all add: powr_minus_divide sample_Eps_def)


lemma dyadic_refinement_fields:
  "spacing_ref dyadic_refinement = 1 / 8"
  "spacing_min dyadic_refinement = 1 / 32"
  "finest_spacing_bound dyadic_refinement = 1 / 32 + sample_Eps"
  "coarsest_spacing_bound dyadic_refinement = 1 / 8 - sample_Eps"
  unfolding dyadic_refinement_def
  by (simp_all add: PWLR_ctor_fields dyadic_body_def powerN_def fl_dyadic_bounds)



subsection \<open>smoothedSpacing\<close>

text \<open>
  C6. For a measure \<open>m \<ge> 0\<close> and a transition thickness \<open>t > 0\<close>, with
  \<open>ratio_ref = m / (2 t)\<close>: inside the kernel's support size \<^verbatim>\<open>smoothedSpacing\<close> returns
  \<open>weight * finest_bound + (1 - weight) * coarsest_bound\<close> for
  \<open>weight = W_1D ratio_ref / W_1D 0\<close>, and the coarsest bound otherwise; it has no
  failure path. Hence it returns the finest bound at measure 0 (the kernel has a positive
  support size and a non-zero peak) and the coarsest bound for every measure at or
  beyond the support edge \<open>2 t * KernelSize\<close>.
\<close>

theorem smoothedSpacing_blend:
  assumes "0 \<le> m" and "0 < t"
  shows "smoothedSpacing K st m t =
           (if m / (2 * t) < KernelSize K (kernel_ptr st)
            then W_1D K (kernel_ptr st) (m / (2 * t)) / W_1D K (kernel_ptr st) 0
                   * finest_spacing_bound st
                 + (1 - W_1D K (kernel_ptr st) (m / (2 * t)) / W_1D K (kernel_ptr st) 0)
                   * coarsest_spacing_bound st
            else coarsest_spacing_bound st)
       \<and> (0 < KernelSize K (kernel_ptr st) \<and> W_1D K (kernel_ptr st) 0 \<noteq> 0
            \<longrightarrow> smoothedSpacing K st 0 t = finest_spacing_bound st)
       \<and> (KernelSize K (kernel_ptr st) * (2 * t) \<le> m
            \<longrightarrow> smoothedSpacing K st m t = coarsest_spacing_bound st)"
proof (intro conjI impI)
  show "smoothedSpacing K st m t =
           (if m / (2 * t) < KernelSize K (kernel_ptr st)
            then W_1D K (kernel_ptr st) (m / (2 * t)) / W_1D K (kernel_ptr st) 0
                   * finest_spacing_bound st
                 + (1 - W_1D K (kernel_ptr st) (m / (2 * t)) / W_1D K (kernel_ptr st) 0)
                   * coarsest_spacing_bound st
            else coarsest_spacing_bound st)"
    by (simp add: smoothedSpacing_def Let_def)
next
  assume "0 < KernelSize K (kernel_ptr st) \<and> W_1D K (kernel_ptr st) 0 \<noteq> 0"
  then show "smoothedSpacing K st 0 t = finest_spacing_bound st"
    by (simp add: smoothedSpacing_def Let_def)
next
  assume "KernelSize K (kernel_ptr st) * (2 * t) \<le> m"
  then have "KernelSize K (kernel_ptr st) \<le> m / (2 * t)"
    using assms(2) by (simp add: le_divide_eq)
  then show "smoothedSpacing K st m t = coarsest_spacing_bound st"
    by (simp add: smoothedSpacing_def Let_def)
qed

theorem smoothedSpacing_blend_witness:
  "(0::real) \<le> 1 / 8 \<and> (0::real) < 1 / 8
   \<and> smoothedSpacing sample_kernels dyadic_refinement 0 (1 / 8) = 1 / 32 + sample_Eps
   \<and> smoothedSpacing sample_kernels dyadic_refinement (1 / 8) (1 / 8) =
       81 / 128 * (1 / 32 + sample_Eps) + 47 / 128 * (1 / 8 - sample_Eps)
   \<and> smoothedSpacing sample_kernels dyadic_refinement (1 / 2) (1 / 8) = 1 / 8 - sample_Eps"
proof -
  have a: "(0::real) \<le> 1 / 8" "(0::real) \<le> 0" "(0::real) \<le> 1 / 2" and b: "(0::real) < 1 / 8"
    by simp_all
  from smoothedSpacing_blend [OF a(1) b, of sample_kernels dyadic_refinement]
    smoothedSpacing_blend [OF a(2) b, of sample_kernels dyadic_refinement]
    smoothedSpacing_blend [OF a(3) b, of sample_kernels dyadic_refinement]
  show ?thesis
    by (simp add: dyadic_refinement_fields sample_kernels_fields power_divide field_simps)
qed

subsection \<open>Bounds of the local refinement\<close>




subsection \<open>createLevelSet\<close>

lemma fl_range_ends:
  "fl (2 powr (- 1022)) = 2 powr (- 1022)"
  "fl (2 powr 1023) = 2 powr 1023"
proof -
  have "real_of_int (2 ^ 52) * 2 powr of_int (- 1074) = 2 powr 52 * 2 powr (- 1074)" by simp
  also have "\<dots> = (2::real) powr (52 + (- 1074))" by (rule powr_add [symmetric])
  also have "\<dots> = (2::real) powr (- 1022)" by simp
  finally have a: "real_of_int (2 ^ 52) * 2 powr of_int (- 1074) = 2 powr (- 1022)" .
  show "fl (2 powr (- 1022)) = 2 powr (- 1022)"
    using fl_representable [of "2 ^ 52" "- 1074"] by (simp only: a) simp
  have "real_of_int (2 ^ 52) * 2 powr of_int 971 = 2 powr 52 * 2 powr 971" by simp
  also have "\<dots> = (2::real) powr (52 + 971)" by (rule powr_add [symmetric])
  also have "\<dots> = (2::real) powr 1023" by simp
  finally have b: "real_of_int (2 ^ 52) * 2 powr of_int 971 = 2 powr 1023" .
  show "fl (2 powr 1023) = 2 powr 1023"
    using fl_representable [of "2 ^ 52" 971] by (simp only: b) simp
qed

lemma fl_small_integers:
  "fl 1 = 1" "fl (- 2) = - 2" "fl (- 5 / 2) = - 5 / 2"
  "fl 1023 = 1023" "fl (- 1022) = - 1022"
  "fl (- 2 + 1 / 2 ^ 52) = - 2 + 1 / 2 ^ 52"
  using fl_representable [of "2 ^ 52" "- 52"]
    fl_representable [of "- (2 ^ 52)" "- 51"]
    fl_representable [of "- (5 * 2 ^ 50)" "- 51"]
    fl_representable [of "1023 * 2 ^ 43" "- 43"]
    fl_representable [of "- (1022 * 2 ^ 43)" "- 43"]
    fl_representable [of "- (2 ^ 53 - 1)" "- 52"]
  by (simp_all add: powr_minus_divide)

lemma log10_two: "0 \<le> log 10 (2::real)" "log 10 (2::real) \<le> 1"
  by simp_all

lemma int_of_Real_bounds:
  assumes "of_int a \<le> y" and "y \<le> of_int b" and "a \<le> 0" and "0 \<le> b"
  shows "a \<le> int_of_Real y" and "int_of_Real y \<le> b"
  using assms by (auto simp add: int_of_Real_def le_floor_iff floor_le_iff ceiling_le_iff le_ceiling_iff)

text \<open>The rounded quotient and the rounded logarithm stay in range.\<close>

lemma quotient_in_range:
  assumes "2 powr (- 1022) \<le> q0" and "q0 \<le> 2 powr 1023"
  shows "2 powr (- 1022) \<le> fl q0" and "fl q0 \<le> 2 powr 1023" and "0 < fl q0"
proof -
  show a: "2 powr (- 1022) \<le> fl q0"
    using fl_mono [OF assms(1)] by (simp only: fl_range_ends)
  show "fl q0 \<le> 2 powr 1023"
    using fl_mono [OF assms(2)] by (simp only: fl_range_ends)
  have "(0::real) < 2 powr (- 1022)" by simp
  with a show "0 < fl q0" by linarith
qed

lemma logarithm_in_range:
  assumes "2 powr (- 1022) \<le> q" and "q \<le> 2 powr 1023"
  shows "- 1022 \<le> fl (log 10 q)" and "fl (log 10 q) \<le> 1023"
proof -
  have p: "0 < q" using assms(1) by (smt (verit) powr_gt_zero)
  have "log 10 (2 powr (- 1022)) \<le> log 10 q"
    using log_le_cancel_iff [of 10 "2 powr (- 1022)" q] assms(1) p by simp
  moreover have "log 10 ((2::real) powr (- 1022)) = - 1022 * log 10 2" by (rule log_powr)
  moreover have "- 1022 \<le> - 1022 * log 10 (2::real)" using log10_two(2) by simp
  ultimately have lo: "- 1022 \<le> log 10 q" by linarith
  have "log 10 q \<le> log 10 (2 powr 1023)"
    using log_le_cancel_iff [of 10 q "2 powr 1023"] assms(2) p by simp
  moreover have "log 10 ((2::real) powr 1023) = 1023 * log 10 2" by (rule log_powr)
  moreover have "1023 * log 10 (2::real) \<le> 1023" using log10_two(2) by simp
  ultimately have hi: "log 10 q \<le> 1023" by linarith
  show "- 1022 \<le> fl (log 10 q)"
    using fl_mono [OF lo] by (simp only: fl_small_integers)
  show "fl (log 10 q) \<le> 1023"
    using fl_mono [OF hi] by (simp only: fl_small_integers)
qed

lemma estimated_levels_defined:
  assumes "0 < d" and "0 < s"
    and "2 powr (- 1022) \<le> d / s" and "d / s \<le> 2 powr 1023"
  shows "estimated_levels d s = Some (int_of_Real (fl (log 10 (fl (d / s)))) + 2)"
proof -
  note q = quotient_in_range [OF assms(3,4)]
  note y = logarithm_in_range [OF q(1,2)]
  have "- 1022 \<le> int_of_Real (fl (log 10 (fl (d / s))))"
    "int_of_Real (fl (log 10 (fl (d / s)))) \<le> 1023"
    using y by (auto intro: int_of_Real_bounds [of "- 1022" _ 1023])
  moreover have "(2::real) powr 1023 < 2 powr 1024" by simp
  then have "\<not> 2 powr 1024 \<le> fl (d / s)" using q(2) by linarith
  ultimately show ?thesis using assms(2) q(3) by (simp add: estimated_levels_def Let_def)
qed

lemma estimate_below_spacing:
  assumes "0 < d" and "d < s" and "0 < fl (d / s)"
  shows "int_of_Real (fl (log 10 (fl (d / s)))) + 2 \<le> 2"
proof -
  have "d / s \<le> 1" using assms(1,2) by simp
  then have "fl (d / s) \<le> 1" using fl_mono [of "d / s" 1] by (simp add: fl_small_integers)
  then have "log 10 (fl (d / s)) \<le> 0" using assms(3) by simp
  then have "fl (log 10 (fl (d / s))) \<le> 0" using fl_mono [of "log 10 (fl (d / s))" 0] by (simp add: fl_zero)
  then have "int_of_Real (fl (log 10 (fl (d / s)))) \<le> 0"
    by (auto simp add: int_of_Real_def ceiling_le_iff floor_le_iff)
  then show ?thesis by simp
qed

lemma estimate_nonpositive:
  assumes "0 < d" and "0 < s" and "2 powr (- 1022) \<le> d / s"
    and "d * 100 \<le> s * (1 - 1 / 2 ^ 52)"
  shows "int_of_Real (fl (log 10 (fl (d / s)))) + 2 \<le> 0"
proof -
  have q0: "d / s \<le> (1 - 1 / 2 ^ 52) / 100"
    using assms(1,2,4) by (simp add: field_simps)
  have "\<bar>d / s\<bar> = d / s" using assms(1,2) by simp
  then have "\<bar>fl (d / s) - d / s\<bar> \<le> d / s / 2 ^ 53"
    using fl_rel_error [of "d / s"] assms(3) by simp
  then have "fl (d / s) \<le> d / s + d / s / 2 ^ 53" by linarith
  with q0 have q: "fl (d / s) \<le> 1 / 100" by simp
  have p: "0 < fl (d / s)"
    using fl_mono [OF assms(3)] by (simp add: fl_range_ends) (smt (verit) powr_gt_zero)
  have "fl (d / s) \<le> 10 powr (- 2)" using q by (simp add: powr_minus_divide)
  then have "log 10 (fl (d / s)) \<le> - 2" using p by (subst log_le_iff) simp_all
  then have y: "fl (log 10 (fl (d / s))) \<le> - 2"
    using fl_mono [of "log 10 (fl (d / s))" "- 2"] by (simp add: fl_small_integers)
  then have "int_of_Real (fl (log 10 (fl (d / s)))) = \<lceil>fl (log 10 (fl (d / s)))\<rceil>"
    by (simp add: int_of_Real_def)
  moreover have "\<lceil>fl (log 10 (fl (d / s)))\<rceil> \<le> - 2" using y by (simp add: ceiling_le_iff)
  ultimately show ?thesis by linarith
qed

lemma ten_powr_small: "10 powr (1 / 2 ^ 52) \<le> 1 + 1 / (2::real) ^ 47"
proof -
  define x :: real where "x = 1 / 2 ^ 52 * ln 10"
  have l: "ln (10::real) \<le> 9" using ln_le_minus_one [of "10::real"] by simp
  have l0: "0 \<le> ln (10::real)" by simp
  have x0: "0 \<le> x" unfolding x_def using l0 by simp
  have x9: "x \<le> 9 / 2 ^ 52" unfolding x_def using l by simp
  then have x1: "x \<le> 1" by simp
  have "x * x \<le> x * 1" using x0 x1 by (intro mult_left_mono) simp_all
  then have xx: "x\<^sup>2 \<le> x" by (simp add: power2_eq_square)
  have "(10::real) powr (1 / 2 ^ 52) = exp x" by (simp add: powr_def x_def)
  also have "\<dots> \<le> 1 + x + x\<^sup>2" using x0 x1 by (rule exp_bound)
  also have "\<dots> \<le> 1 + 1 / 2 ^ 47" using xx x9 by simp
  finally show ?thesis .
qed

lemma nonpositive_estimate_small:
  assumes "0 < d" and "0 < s" and "2 powr (- 1022) \<le> d / s"
    and "int_of_Real (fl (log 10 (fl (d / s)))) + 2 \<le> 0"
  shows "d * 100 \<le> s * (1 + 1 / 2 ^ 46)"
proof -
  have p: "0 < fl (d / s)"
    using fl_mono [OF assms(3)] by (simp add: fl_range_ends) (smt (verit) powr_gt_zero)
  have y: "fl (log 10 (fl (d / s))) \<le> - 2"
  proof (rule ccontr)
    assume "\<not> fl (log 10 (fl (d / s))) \<le> - 2"
    then have "- 2 < fl (log 10 (fl (d / s)))" by simp
    then have "- 2 \<le> int_of_Real (fl (log 10 (fl (d / s)))) - 1 + 1 \<and> - 1 \<le> int_of_Real (fl (log 10 (fl (d / s))))"
      by (auto simp add: int_of_Real_def le_floor_iff le_ceiling_iff) 
    then show False using assms(4) by simp
  qed
  have "log 10 (fl (d / s)) < - 2 + 1 / 2 ^ 52"
  proof (rule ccontr)
    assume "\<not> log 10 (fl (d / s)) < - 2 + 1 / 2 ^ 52"
    then have "- 2 + 1 / 2 ^ 52 \<le> log 10 (fl (d / s))" by simp
    then have "fl (- 2 + 1 / 2 ^ 52) \<le> fl (log 10 (fl (d / s)))" by (rule fl_mono)
    then have "- 2 + 1 / 2 ^ 52 \<le> fl (log 10 (fl (d / s)))" by (simp only: fl_small_integers)
    then show False using y by simp
  qed
  then have "fl (d / s) < 10 powr (- 2 + 1 / 2 ^ 52)" using p by (subst (asm) log_less_iff) simp_all
  also have "(10::real) powr (- 2 + 1 / 2 ^ 52) = 10 powr (- 2) * 10 powr (1 / 2 ^ 52)"
    by (rule powr_add)
  also have "\<dots> \<le> 1 / 100 * (1 + 1 / 2 ^ 47)"
    using ten_powr_small by (simp add: powr_minus_divide)
  finally have q: "fl (d / s) < 1 / 100 * (1 + 1 / 2 ^ 47)" .
  have "\<bar>d / s\<bar> = d / s" using assms(1,2) by simp
  then have "\<bar>fl (d / s) - d / s\<bar> \<le> d / s / 2 ^ 53"
    using fl_rel_error [of "d / s"] assms(3) by simp
  then have "d / s - d / s / 2 ^ 53 \<le> fl (d / s)" by linarith
  with q have "d / s * 100 \<le> 1 + 1 / 2 ^ 46" by simp
  then show ?thesis using assms(2) by (simp add: field_simps)
qed

lemma dyadic_adaptation_spacing_ref: "spacing_ref dyadic_adaptation = 1 / 8"
  by (simp add: dyadic_adaptation_def SPHAdaptation_ctor_def SPHAdaptation_ctor_resolution_def
      dyadic_body_def Let_def)

lemma fl_dyadic_extent: "fl (1 / 2048) = 1 / 2048" "fl (1 / 256) = 1 / 256"
  using fl_representable [of "2 ^ 52" "- 63"] fl_representable [of "2 ^ 52" "- 60"]
  by (simp_all add: powr_minus_divide)

lemma log10_of_256th: "- 5 / 2 \<le> log 10 (1 / 256 :: real)" "log 10 (1 / 256 :: real) \<le> - 2"
proof -
  have "log 10 ((2::real) ^ 16) \<le> log 10 (10 ^ 5)"
    by (subst log_le_cancel_iff) simp_all
  moreover have "log 10 ((2::real) ^ 16) = 16 * log 10 2"
    using log_nat_power [of 2 10 16] by simp
  moreover have "log 10 ((10::real) ^ 5) = 5"
    using log_nat_power [of 10 10 5] by simp
  ultimately have "16 * log 10 (2::real) \<le> 5" by (simp only:)
  moreover have "log 10 (1 / 256 :: real) = - (8 * log 10 2)"
  proof -
    have "log 10 (1 / 256 :: real) = - log 10 256" by (simp add: log_divide)
    moreover have "log 10 (256 :: real) = 8 * log 10 2"
      using log_nat_power [of 2 10 8] by simp
    ultimately show ?thesis by simp
  qed
  ultimately show "- 5 / 2 \<le> log 10 (1 / 256 :: real)" by simp
  have "(1 / 256 :: real) \<le> 10 powr (- 2)" by (simp add: powr_minus_divide)
  then show "log 10 (1 / 256 :: real) \<le> - 2" by (subst log_le_iff) simp_all
qed

lemma estimated_levels_dyadic: "estimated_levels (1 / 2048) (1 / 8) = Some 0"
proof -
  have q: "(1 / 2048 :: real) / (1 / 8) = 1 / 256" by simp
  have lo: "- 5 / 2 \<le> fl (log 10 (1 / 256))"
    using fl_mono [OF log10_of_256th(1)] by (simp only: fl_small_integers)
  have hi: "fl (log 10 (1 / 256)) \<le> - 2"
    using fl_mono [OF log10_of_256th(2)] by (simp only: fl_small_integers)
  have "\<lceil>fl (log 10 (1 / 256))\<rceil> = - 2"
    using lo hi by (simp add: ceiling_eq_iff)
  then have "int_of_Real (fl (log 10 (1 / 256))) = - 2"
    using hi by (simp add: int_of_Real_def)
  moreover have "(1 / 256 :: real) < 2 powr 0" by simp
  then have "(1 / 256 :: real) < 2 powr 1024"
    by (rule less_le_trans) simp
  then have "\<not> 2 powr 1024 \<le> (1 / 256 :: real)" by simp
  ultimately show ?thesis
    by (simp add: estimated_levels_def Let_def fl_dyadic_extent)
qed

text \<open>
  C2, as amended. \<^verbatim>\<open>createLevelSet\<close> has no failure path: for every positive shape extent
  \<open>d\<close> and positive reference spacing (doubles, with a quotient in the range of the normal
  doubles) it reaches the construction of the multi-level level set, with
  \<^verbatim>\<open>total_levels\<close> the estimate \<open>trunc (log10 (d / reference spacing)) + 2\<close>, computed in
  doubles and converted to \<^verbatim>\<open>size_t\<close>, and with \<^verbatim>\<open>total_levels - 1\<close> levels for the
  multi-level constructor. For an extent below the reference spacing the estimate is at
  most 2; it is zero or negative for an extent up to a hundredth of the reference
  spacing, and only there (up to the last digits of the double quotient).
\<close>

theorem createLevelSet_has_no_failure_path:
  assumes "0 < d" and "0 < spacing_ref st"
    and "fl d = d" and "fl (spacing_ref st) = spacing_ref st"
    and "2 powr (- 1022) \<le> d / spacing_ref st" and "d / spacing_ref st \<le> 2 powr 1023"
  shows "\<exists>n. estimated_levels d (spacing_ref st) = Some n
           \<and> n = int_of_Real (fl (log 10 (fl (d / spacing_ref st)))) + 2
           \<and> createLevelSet st d ratio =
               Some (Inr \<lparr>total_levels = word_of_int n,
                  coarsest_spacing = spacing_ref st *
                    powerN 2 (sint (ucast (word_of_int n - 1 :: 64 word) :: 32 word)),
                  reference_data_spacing = spacing_ref st *
                    powerN 2 (sint (ucast (word_of_int n - 1 :: 64 word) :: 32 word)) / ratio,
                  coarser_total_levels = word_of_int n - 1\<rparr>)
           \<and> (d < spacing_ref st \<longrightarrow> n \<le> 2)
           \<and> (d * 100 \<le> spacing_ref st * (1 - 1 / 2 ^ 52) \<longrightarrow> n \<le> 0)
           \<and> (n \<le> 0 \<longrightarrow> d * 100 \<le> spacing_ref st * (1 + 1 / 2 ^ 46))"
proof -
  define n where "n = int_of_Real (fl (log 10 (fl (d / spacing_ref st)))) + 2"
  have e: "estimated_levels d (spacing_ref st) = Some n"
    unfolding n_def using assms(1,2,5,6) by (rule estimated_levels_defined)
  have c: "createLevelSet st d ratio =
               Some (Inr \<lparr>total_levels = word_of_int n,
                  coarsest_spacing = spacing_ref st *
                    powerN 2 (sint (ucast (word_of_int n - 1 :: 64 word) :: 32 word)),
                  reference_data_spacing = spacing_ref st *
                    powerN 2 (sint (ucast (word_of_int n - 1 :: 64 word) :: 32 word)) / ratio,
                  coarser_total_levels = word_of_int n - 1\<rparr>)"
    by (simp add: createLevelSet_def e Let_def)
  have p: "0 < fl (d / spacing_ref st)"
    using quotient_in_range(3) [OF assms(5,6)] .
  have a: "n \<le> 2" if "d < spacing_ref st"
    unfolding n_def using assms(1) that p by (rule estimate_below_spacing)
  have b: "n \<le> 0" if "d * 100 \<le> spacing_ref st * (1 - 1 / 2 ^ 52)"
    unfolding n_def using assms(1,2,5) that by (rule estimate_nonpositive)
  have g: "d * 100 \<le> spacing_ref st * (1 + 1 / 2 ^ 46)" if "n \<le> 0"
    using assms(1,2,5) that unfolding n_def by (rule nonpositive_estimate_small)
  show ?thesis using e c a b g n_def by blast
qed

theorem createLevelSet_has_no_failure_path_witness:
  "(0::real) < 1 / 2048 \<and> 0 < spacing_ref dyadic_adaptation
   \<and> fl (1 / 2048) = 1 / 2048
   \<and> fl (spacing_ref dyadic_adaptation) = spacing_ref dyadic_adaptation
   \<and> 2 powr (- 1022) \<le> (1 / 2048) / spacing_ref dyadic_adaptation
   \<and> (1 / 2048) / spacing_ref dyadic_adaptation \<le> 2 powr 1023
   \<and> (1 / 2048 :: real) < spacing_ref dyadic_adaptation
   \<and> (1 / 2048 :: real) * 100 \<le> spacing_ref dyadic_adaptation * (1 - 1 / 2 ^ 52)
   \<and> createLevelSet dyadic_adaptation (1 / 2048) 1 \<noteq> None
   \<and> the (estimated_levels (1 / 2048) (spacing_ref dyadic_adaptation)) \<le> 0"
proof -
  have h: "(0::real) < 1 / 2048" "0 < spacing_ref dyadic_adaptation"
    "fl (1 / 2048) = 1 / 2048"
    "fl (spacing_ref dyadic_adaptation) = spacing_ref dyadic_adaptation"
    by (simp_all add: dyadic_adaptation_spacing_ref fl_dyadic_extent fl_dyadic_bounds)
  have lo: "2 powr (- 1022) \<le> (1 / 2048) / spacing_ref dyadic_adaptation"
  proof -
    have "(2::real) powr (- 1022) \<le> 2 powr (- 8)" by simp
    also have "\<dots> = 1 / 256" by (simp add: powr_minus_divide)
    finally show ?thesis by (simp add: dyadic_adaptation_spacing_ref)
  qed
  have hi: "(1 / 2048) / spacing_ref dyadic_adaptation \<le> 2 powr 1023"
  proof -
    have "(1 / 256 :: real) \<le> 2 powr 0" by simp
    also have "\<dots> \<le> 2 powr 1023" by simp
    finally show ?thesis by (simp add: dyadic_adaptation_spacing_ref)
  qed
  have s: "(1 / 2048 :: real) < spacing_ref dyadic_adaptation"
    "(1 / 2048 :: real) * 100 \<le> spacing_ref dyadic_adaptation * (1 - 1 / 2 ^ 52)"
    by (simp_all add: dyadic_adaptation_spacing_ref)
  from createLevelSet_has_no_failure_path [OF h lo hi, of 1] s
  have "createLevelSet dyadic_adaptation (1 / 2048) 1 \<noteq> None
    \<and> the (estimated_levels (1 / 2048) (spacing_ref dyadic_adaptation)) \<le> 0"
    by auto
  then show ?thesis using h lo hi s by blast
qed

text \<open>
  C2 as stated fails: a shape of extent \<open>1/2048\<close> under reference spacing \<open>1/8\<close> gives the
  estimate 0, and \<^verbatim>\<open>createLevelSet\<close> goes on with \<^verbatim>\<open>total_levels = 0\<close> and the level count
  \<open>2^64 - 1\<close> for the multi-level constructor; no error is signalled.
\<close>

theorem createLevelSet_counterexample:
  "(1 / 2048 :: real) < spacing_ref dyadic_adaptation
   \<and> map_option (map_sum id (\<lambda>a. (total_levels a, unat (coarser_total_levels a))))
        (createLevelSet dyadic_adaptation (1 / 2048) 1) = Some (Inr (0, 2 ^ 64 - 1))"
  by (simp add: createLevelSet_def Let_def dyadic_adaptation_spacing_ref estimated_levels_dyadic
      unsigned_minus_1_eq_mask mask_eq_exp_minus_1)

subsection \<open>Level counts\<close>








subsection \<open>The maximum smoothing ratio\<close>

lemma PWLR_ctor_h_ratio_max:
  assumes "st = ParticleWithLocalRefinement_ctor K D eps body h r L"
    and "0 < spacing_ref st"
  shows "spacing_min st \<le> spacing_ref st \<and> h_ratio_max st = spacing_ref st / spacing_min st"
proof -
  have m: "spacing_min st = spacing_ref st / 2 ^ nat L" and x: "h_ratio_max st = 2 ^ nat L"
    unfolding assms(1) by (simp_all add: PWLR_ctor_fields powerN_def)
  have "(1::real) \<le> 2 ^ nat L" by simp
  then have "spacing_ref st / 2 ^ nat L \<le> spacing_ref st"
    using assms(2) by (simp add: divide_le_eq mult.commute mult_le_cancel_left1)
  then show ?thesis using assms(2) by (simp add: m x)
qed

lemma reset_h_ratio_max:
  "h_ratio_max (SPHAdaptation_resetAdaptationRatios K D cls st h r) =
     h_ref (SPHAdaptation_resetAdaptationRatios K D cls st h r)
       * spacing_ref (SPHAdaptation_resetAdaptationRatios K D cls st h r)
       / spacing_min (SPHAdaptation_resetAdaptationRatios K D cls st h r)"
  by (simp add: SPHAdaptation_resetAdaptationRatios_def)

text \<open>
  C1 asks that after construction and after every reset the finest spacing is at most the
  reference spacing and \<open>h_ratio_max\<close> is their quotient. The constructor establishes
  both (lemma above); the reset stores \<open>h_ref * spacing_ref / spacing_min\<close> instead. At the
  object of class \<^verbatim>\<open>ParticleWithLocalRefinement\<close> built for resolution 0.1, ratio 1.3 and
  level 2, where \<open>h_ratio_max = 4\<close>, the call \<^verbatim>\<open>resetAdaptationRatios(1.3, 1.0)\<close> leaves
  the reference spacing 0.1 and the finest spacing 0.025, quotient 4, and sets
  \<open>h_ratio_max\<close> to \<open>0.13 * 4 = 0.52\<close>.
\<close>

theorem resetAdaptationRatios_h_ratio_max_evaluated:
  "h_ratio_max sample_refinement = 4
   \<and> spacing_ref (SPHAdaptation_resetAdaptationRatios sample_kernels 2
       Class_ParticleWithLocalRefinement sample_refinement (13/10) 1) = 1 / 10
   \<and> spacing_min (SPHAdaptation_resetAdaptationRatios sample_kernels 2
       Class_ParticleWithLocalRefinement sample_refinement (13/10) 1) = 1 / 40
   \<and> h_ratio_max (SPHAdaptation_resetAdaptationRatios sample_kernels 2
       Class_ParticleWithLocalRefinement sample_refinement (13/10) 1) = 13 / 25"
proof -
  have c: "spacing_ref sample_refinement = 1 / 10"
    "system_refinement_ratio sample_refinement = 1"
    "local_refinement_level sample_refinement = 2"
    "h_ratio_max sample_refinement = 4"
    unfolding sample_refinement_def by (simp_all add: PWLR_ctor_fields sample_body_def powerN_def)
  show ?thesis
    by (simp add: c SPHAdaptation_resetAdaptationRatios_def SPHAdaptation_MostRefinedSpacing_def
        powerN_def)
qed

end
